theory Spec2Isabelle
  imports Main
begin

section \<open>Script values, exceptions and stateful computations\<close>

text \<open>
  Objects of the running program are identified by references into a store. A script
  value that the adapter passes around is \<open>undefined\<close>, \<open>null\<close> or a string.
\<close>

type_synonym ref = nat

datatype jsval = Undefined | Null | Str string

text \<open>
  What a \<open>throw\<close> carries: the engine's own \<open>TypeError\<close>, a \<open>DOMException\<close> with its
  message and its name, or an arbitrary value thrown by page script.
\<close>

datatype error =
    TypeError
  | DOMException string string
  | Thrown nat

text \<open>
  A computation takes the state and returns either the thrown error or the returned
  value, together with the state as it is at that moment: what was written before a
  \<open>throw\<close> stays written.
\<close>

type_synonym ('s, 'a) js = "'s \<Rightarrow> (error + 'a) \<times> 's"

definition js_return :: "'a \<Rightarrow> ('s, 'a) js" where
  "js_return x = (\<lambda>s. (Inr x, s))"

definition js_throw :: "error \<Rightarrow> ('s, 'a) js" where
  "js_throw e = (\<lambda>s. (Inl e, s))"

definition js_bind :: "('s, 'a) js \<Rightarrow> ('a \<Rightarrow> ('s, 'b) js) \<Rightarrow> ('s, 'b) js" where
  "js_bind m f = (\<lambda>s. case m s of (Inl e, s') \<Rightarrow> (Inl e, s') | (Inr x, s') \<Rightarrow> f x s')"

definition js_try_catch :: "('s, 'a) js \<Rightarrow> (error \<Rightarrow> ('s, 'a) js) \<Rightarrow> ('s, 'a) js" where
  "js_try_catch body handler =
     (\<lambda>s. case body s of (Inl e, s') \<Rightarrow> handler e s' | (Inr x, s') \<Rightarrow> (Inr x, s'))"

definition js_modify :: "('s \<Rightarrow> 's) \<Rightarrow> ('s, unit) js" where
  "js_modify f = (\<lambda>s. (Inr (), f s))"

section \<open>The node store\<close>

datatype nodeType =
    ELEMENT_NODE
  | TEXT_NODE
  | COMMENT_NODE
  | DOCUMENT_NODE
  | DOCUMENT_TYPE_NODE
  | DOCUMENT_FRAGMENT_NODE

text \<open>An attribute as the tokenizer hands it over and as an element stores it.\<close>

record attr =
  attr_name :: string
  attr_value :: string
  attr_prefix :: jsval
  attr_namespace :: jsval

text \<open>
  The fields of a node implementation object that the adapter, the dataset map and the
  template glue read or write. \<open>templateContents = None\<close> is a node whose
  \<open>_templateContents\<close> is \<open>undefined\<close>; \<open>parserInserted = None\<close> is a node with no
  \<open>_parserInserted\<close> property; \<open>observedAttributes\<close> is the observed-attribute set of
  the element's custom-element definition, empty for an element without one; \<open>mode\<close> is
  the \<open>_mode\<close> of a document; the last three fields are those of a document type.
\<close>

record node =
  nodeType :: nodeType
  localName :: string
  namespaceURI :: jsval
  data :: string
  childNodes :: "ref list"
  parentNode :: "ref option"
  ownerDocument :: "ref option"
  host :: "ref option"
  templateContents :: "ref option"
  parserInserted :: "bool option"
  attributes :: "attr list"
  observedAttributes :: "string list"
  throwOnDynamicMarkupInsertionCounter :: int
  mode :: string
  doctype_name :: string
  publicId :: string
  systemId :: string

text \<open>
  A mutation record object: the seven public fields, and the two arrays behind
  \<open>addedNodes\<close> and \<open>removedNodes\<close>. An array is an object of its own; the record holds
  a reference to it.
\<close>

record MutationRecordImpl =
  mr_type :: string
  mr_target :: ref
  mr_previousSibling :: "ref option"
  mr_nextSibling :: "ref option"
  mr_attributeName :: jsval
  mr_attributeNamespace :: jsval
  mr_oldValue :: jsval
  mr_addedNodes :: ref
  mr_removedNodes :: ref

text \<open>
  A reaction, as the data model of the specification has it, and the state shared by
  every function of the tree: the store of node objects with the allocation pointer, the
  module-level stack of reaction queues (the last element is the top), and the stores of
  the arrays of nodes and of the mutation record objects.
\<close>

datatype reaction = Upgrade ref string | Callback ref string "jsval list"

record world =
  heap :: "ref \<Rightarrow> node"
  nextRef :: ref
  customElementReactionsStack :: "reaction list list"
  backupQueue :: "reaction list"
  arrays :: "ref \<Rightarrow> ref list"
  mutationRecords :: "ref \<Rightarrow> MutationRecordImpl"

definition blank :: node where
  "blank = \<lparr>nodeType = ELEMENT_NODE, localName = [], namespaceURI = Null, data = [],
     childNodes = [], parentNode = None, ownerDocument = None, host = None,
     templateContents = None, parserInserted = None, attributes = [],
     observedAttributes = [], throwOnDynamicMarkupInsertionCounter = 0, mode = [],
     doctype_name = [], publicId = [], systemId = []\<rparr>"

definition update_node :: "ref \<Rightarrow> (node \<Rightarrow> node) \<Rightarrow> world \<Rightarrow> world" where
  "update_node r f w = w\<lparr>heap := (heap w)(r := f (heap w r))\<rparr>"

definition HTML_NS :: string where
  "HTML_NS = ''http://www.w3.org/1999/xhtml''"

section \<open>living/attributes\<close>

text \<open>
  Modelled from the spec: the reaction queue's \<open>enqueue\<close> (helpers/custom-elements.js is
  not among the source files). A reaction is appended to the queue on top of the stack,
  or to the backup queue when the stack is empty.
\<close>

definition enqueue :: "reaction \<Rightarrow> world \<Rightarrow> world" where
  "enqueue r w =
     (case customElementReactionsStack w of
        [] \<Rightarrow> w\<lparr>backupQueue := backupQueue w @ [r]\<rparr>
      | q # qs \<Rightarrow>
          w\<lparr>customElementReactionsStack := butlast (q # qs) @ [last (q # qs) @ [r]]\<rparr>)"

text \<open>
  Modelled from the spec: \<open>setAttributeValue\<close> of living/attributes.js, which is not
  among the source files. The Attribute Store keys an attribute by namespace, prefix and
  local name; setting a name not present appends it, setting an existing name updates
  the value in place without reordering. A prefix or namespace that is \<open>undefined\<close> is
  stored as \<open>null\<close>. Every set computes the old value and, if the name is in the
  observed-attribute set of the element's definition, enqueues an \<open>attributeChanged\<close>
  reaction with (name, old value, new value, namespace).
\<close>

definition nullish :: "jsval \<Rightarrow> jsval" where
  "nullish v = (if v = Undefined then Null else v)"

definition same_key :: "string \<Rightarrow> jsval \<Rightarrow> jsval \<Rightarrow> attr \<Rightarrow> bool" where
  "same_key n p ns a =
     (attr_name a = n \<and> attr_prefix a = nullish p \<and> attr_namespace a = nullish ns)"

fun set_in_place :: "string \<Rightarrow> string \<Rightarrow> jsval \<Rightarrow> jsval \<Rightarrow> attr list \<Rightarrow> attr list" where
  "set_in_place n v p ns [] =
     [\<lparr>attr_name = n, attr_value = v, attr_prefix = nullish p, attr_namespace = nullish ns\<rparr>]"
| "set_in_place n v p ns (a # as) =
     (if same_key n p ns a then a\<lparr>attr_value := v\<rparr> # as
      else a # set_in_place n v p ns as)"

definition old_value :: "string \<Rightarrow> jsval \<Rightarrow> jsval \<Rightarrow> attr list \<Rightarrow> jsval" where
  "old_value n p ns as =
     (case find (same_key n p ns) as of None \<Rightarrow> Null | Some a \<Rightarrow> Str (attr_value a))"

definition setAttributeValue ::
  "ref \<Rightarrow> string \<Rightarrow> string \<Rightarrow> jsval \<Rightarrow> jsval \<Rightarrow> (world, unit) js" where
  "setAttributeValue element n v p ns =
     js_modify (\<lambda>w.
       let old = old_value n p ns (attributes (heap w element));
           w1 = update_node element
                  (\<lambda>e. e\<lparr>attributes := set_in_place n v p ns (attributes e)\<rparr>) w
       in if n \<in> set (observedAttributes (heap w element))
          then enqueue (Callback element ''attributeChangedCallback''
                          [Str n, old, Str v, nullish ns]) w1
          else w1)"

section \<open>living/nodes/DOMStringMap-impl.js\<close>

definition is_lower_az :: "char \<Rightarrow> bool" where
  "is_lower_az c = (97 \<le> (of_char c :: nat) \<and> (of_char c :: nat) \<le> 122)"

definition is_upper_AZ :: "char \<Rightarrow> bool" where
  "is_upper_AZ c = (65 \<le> (of_char c :: nat) \<and> (of_char c :: nat) \<le> 90)"

definition toLowerCase :: "char \<Rightarrow> char" where
  "toLowerCase c = (if is_upper_AZ c then char_of ((of_char c :: nat) + 32) else c)"

text \<open>\<open>/-[a-z]/.test(name)\<close>: some hyphen of the name is directly followed by a lowercase
  ASCII letter.\<close>

fun test_hyphen_lower :: "string \<Rightarrow> bool" where
  "test_hyphen_lower (c # d # cs) =
     ((c = CHR ''-'' \<and> is_lower_az d) \<or> test_hyphen_lower (d # cs))"
| "test_hyphen_lower cs = False"

text \<open>\<open>name.replace(/[A-Z]/g, match => `-${match.toLowerCase()}`)\<close>\<close>

definition attrSnakeCase :: "string \<Rightarrow> string" where
  "attrSnakeCase name =
     concat (map (\<lambda>c. if is_upper_AZ c then [CHR ''-'', toLowerCase c] else [c]) name)"

record DOMStringMapImpl =
  dataset_element :: ref

text \<open>
  The name validator of helpers/validate-names.js is not among the source files; it is a
  parameter, a computation that may throw.
\<close>

definition not_valid_message :: "string \<Rightarrow> string" where
  "not_valid_message name = [CHR 0x27] @ name @ [CHR 0x27] @ '' is not a valid property name''"

definition namedSetNew ::
  "(string \<Rightarrow> (world, unit) js) \<Rightarrow> DOMStringMapImpl \<Rightarrow> string \<Rightarrow> string \<Rightarrow> (world, unit) js"
where
  "namedSetNew validateName this name v =
     (if test_hyphen_lower name
      then js_throw (DOMException (not_valid_message name) ''SyntaxError'')
      else js_bind (validateName (''data-'' @ attrSnakeCase name))
             (\<lambda>_. setAttributeValue (dataset_element this) (''data-'' @ attrSnakeCase name) v
                    Undefined Undefined))"

definition namedSetExisting ::
  "(string \<Rightarrow> (world, unit) js) \<Rightarrow> DOMStringMapImpl \<Rightarrow> string \<Rightarrow> string \<Rightarrow> (world, unit) js"
where
  "namedSetExisting validateName this name v = namedSetNew validateName this name v"

section \<open>The tree operations the adapter calls\<close>

text \<open>
  Modelled from the spec: the Node Tree Core (Node-impl.js, the symbol tree and the node
  factories are not among the source files). Previous and next sibling are derived from
  the position in the parent's child sequence; \<open>insert(node, newParent, referenceChild?)\<close>
  unlinks the node from its old parent and places it before the reference child, or at
  the end when no reference child is given. Only the structural part is modelled, for a
  node that is not a fragment; the checks of the pre-insertion validity are the caller's.
\<close>

definition lastChild :: "world \<Rightarrow> ref \<Rightarrow> ref option" where
  "lastChild w n = (case childNodes (heap w n) of [] \<Rightarrow> None | c # cs \<Rightarrow> Some (last (c # cs)))"

fun before :: "ref \<Rightarrow> ref list \<Rightarrow> ref option" where
  "before n (a # b # cs) =
     (if a = n then None else if b = n then Some a else before n (b # cs))"
| "before n cs = None"

definition previousSibling :: "world \<Rightarrow> ref \<Rightarrow> ref option" where
  "previousSibling w n =
     (case parentNode (heap w n) of
        None \<Rightarrow> None
      | Some p \<Rightarrow> before n (childNodes (heap w p)))"

fun place_before :: "ref \<Rightarrow> ref \<Rightarrow> ref list \<Rightarrow> ref list" where
  "place_before n c [] = [n]"
| "place_before n c (a # as) = (if a = c then n # a # as else a # place_before n c as)"

definition unlink :: "ref \<Rightarrow> world \<Rightarrow> world" where
  "unlink n w =
     (case parentNode (heap w n) of
        None \<Rightarrow> w
      | Some p \<Rightarrow>
          update_node n (\<lambda>x. x\<lparr>parentNode := None\<rparr>)
            (update_node p (\<lambda>x. x\<lparr>childNodes := removeAll n (childNodes x)\<rparr>) w))"

definition Node_insert :: "ref \<Rightarrow> ref \<Rightarrow> ref option \<Rightarrow> (world, unit) js" where
  "Node_insert this n child =
     js_modify (\<lambda>w.
       update_node n (\<lambda>x. x\<lparr>parentNode := Some this\<rparr>)
         (update_node this
            (\<lambda>x. x\<lparr>childNodes :=
                     (case child of
                        None \<Rightarrow> childNodes x @ [n]
                      | Some c \<Rightarrow> place_before n c (childNodes x))\<rparr>)
            (unlink n w)))"

text \<open>
  Modelled from the spec: \<open>_append(node)\<close> of Node-impl.js, the tree core's append. It
  takes the node alone and inserts it with no reference child, as \<open>appendChild\<close> of the
  adapter uses it; a further argument at a call site is not a parameter of it and is
  dropped.
\<close>

definition Node_append :: "ref \<Rightarrow> ref \<Rightarrow> (world, unit) js" where
  "Node_append this n = Node_insert this n None"

text \<open>
  Modelled from the spec: \<open>remove(node)\<close>, which unlinks the node, with its subtree
  attached to it, from its parent, and does nothing to a node without a parent.
\<close>

definition Node_remove :: "ref \<Rightarrow> (world, unit) js" where
  "Node_remove n = js_modify (unlink n)"

text \<open>
  Modelled from the spec: the factories of Text, Comment, DocumentFragment and
  DocumentType nodes. Each allocates a fresh object that holds the private data it was
  given and has no parent.
\<close>

definition allocate :: "node \<Rightarrow> (world, ref) js" where
  "allocate x =
     (\<lambda>w. (Inr (nextRef w),
           w\<lparr>heap := (heap w)(nextRef w := x), nextRef := Suc (nextRef w)\<rparr>))"

definition Text_createImpl :: "string \<Rightarrow> ref option \<Rightarrow> (world, ref) js" where
  "Text_createImpl d od =
     allocate (blank\<lparr>nodeType := TEXT_NODE, data := d, ownerDocument := od\<rparr>)"

definition Comment_createImpl :: "string \<Rightarrow> ref option \<Rightarrow> (world, ref) js" where
  "Comment_createImpl d od =
     allocate (blank\<lparr>nodeType := COMMENT_NODE, data := d, ownerDocument := od\<rparr>)"

definition DocumentFragment_createImpl :: "ref option \<Rightarrow> (world, ref) js" where
  "DocumentFragment_createImpl od =
     allocate (blank\<lparr>nodeType := DOCUMENT_FRAGMENT_NODE, ownerDocument := od\<rparr>)"

definition DocumentType_createImpl ::
  "string \<Rightarrow> string \<Rightarrow> string \<Rightarrow> ref option \<Rightarrow> (world, ref) js" where
  "DocumentType_createImpl n p s od =
     allocate (blank\<lparr>nodeType := DOCUMENT_TYPE_NODE, ownerDocument := od, doctype_name := n,
                     publicId := p, systemId := s\<rparr>)"

text \<open>
  Modelled from the spec: the \<open>data\<close> setter of a character-data node, as \<open>x.data += text\<close>
  uses it. It replaces the data of the node; on \<open>undefined\<close> the read of \<open>data\<close> is a
  TypeError.
\<close>

definition append_data :: "ref option \<Rightarrow> string \<Rightarrow> (world, unit) js" where
  "append_data r text =
     (case r of
        None \<Rightarrow> js_throw TypeError
      | Some n \<Rightarrow> js_modify (update_node n (\<lambda>x. x\<lparr>data := data x @ text\<rparr>)))"

section \<open>browser/parser/html.js\<close>

text \<open>
  The adapter class with the fields its constructor sets. The serialization adapter that
  is mixed into the prototype is not among the source files; it holds the read accessors
  of the serializer, and the methods below are the class's own.
\<close>

record JSDOMParse5Adapter =
  documentImpl :: ref
  fragment :: bool
  currentElement :: "ref option"

text \<open>The constructor: \<open>options.fragment || false\<close>, and no current element yet.\<close>

definition JSDOMParse5Adapter_new :: "ref \<Rightarrow> bool option \<Rightarrow> JSDOMParse5Adapter" where
  "JSDOMParse5Adapter_new d options_fragment =
     \<lparr>documentImpl = d,
      fragment = (case options_fragment of None \<Rightarrow> False | Some b \<Rightarrow> b),
      currentElement = None\<rparr>"

text \<open>
  \<open>_ownerDocument()\<close>. The \<open>content\<close> getter of a template element returns its
  \<open>_templateContents\<close>; reading \<open>_ownerDocument\<close> of \<open>undefined\<close> is a TypeError.
\<close>

definition adapter_ownerDocument :: "JSDOMParse5Adapter \<Rightarrow> (world, ref option) js" where
  "adapter_ownerDocument this =
     (\<lambda>w. case currentElement this of
             Some ce \<Rightarrow>
               if localName (heap w ce) = ''template'' \<and> namespaceURI (heap w ce) = Str HTML_NS
               then (case templateContents (heap w ce) of
                       None \<Rightarrow> (Inl TypeError, w)
                     | Some c \<Rightarrow> (Inr (ownerDocument (heap w c)), w))
               else (Inr (ownerDocument (heap w ce)), w)
           | None \<Rightarrow> (Inr (Some (documentImpl this)), w))"

definition createDocument :: "JSDOMParse5Adapter \<Rightarrow> (world, ref) js" where
  "createDocument this = js_return (documentImpl this)"

definition createDocumentFragment :: "JSDOMParse5Adapter \<Rightarrow> (world, ref) js" where
  "createDocumentFragment this =
     js_bind (adapter_ownerDocument this) (\<lambda>od. DocumentFragment_createImpl od)"

text \<open>
  The helpers of living/helpers/custom-elements.js and living/helpers/create-element.js
  are not among the source files; they are parameters. The definition lookup reads the
  registry of the document's global object; its fourth parameter is the \<open>is\<close> value. The
  element factory and the invocation of a popped queue run page script. The two hooks are
  the optional methods of an element that the stack of open elements calls.
\<close>

record 'd env =
  lookupCEDefinition :: "ref option \<Rightarrow> string \<Rightarrow> string \<Rightarrow> jsval \<Rightarrow> world \<Rightarrow> 'd option"
  helper_createElement ::
    "ref option \<Rightarrow> string \<Rightarrow> string \<Rightarrow> jsval \<Rightarrow> jsval \<Rightarrow> bool \<Rightarrow> (world, ref) js"
  invokeCEReactions :: "reaction list option \<Rightarrow> (world, unit) js"
  pushedOnStackOfOpenElements :: "ref \<Rightarrow> (world, unit) js"
  poppedOffStackOfOpenElements :: "ref \<Rightarrow> (world, unit) js"

definition counter_add :: "ref option \<Rightarrow> int \<Rightarrow> (world, unit) js" where
  "counter_add od k =
     (case od of
        None \<Rightarrow> js_throw TypeError
      | Some d \<Rightarrow>
          js_modify (update_node d
            (\<lambda>x. x\<lparr>throwOnDynamicMarkupInsertionCounter :=
                     throwOnDynamicMarkupInsertionCounter x + k\<rparr>)))"

definition stack_push :: "reaction list \<Rightarrow> (world, unit) js" where
  "stack_push q =
     js_modify (\<lambda>w. w\<lparr>customElementReactionsStack := customElementReactionsStack w @ [q]\<rparr>)"

text \<open>\<open>Array.prototype.pop\<close>: the last element, or \<open>undefined\<close> from an empty array.\<close>

definition stack_pop :: "(world, reaction list option) js" where
  "stack_pop =
     (\<lambda>w. case customElementReactionsStack w of
             [] \<Rightarrow> (Inr None, w)
           | q # qs \<Rightarrow>
               (Inr (Some (last (q # qs))),
                w\<lparr>customElementReactionsStack := butlast (q # qs)\<rparr>))"

fun adoptAttributes :: "ref \<Rightarrow> attr list \<Rightarrow> (world, unit) js" where
  "adoptAttributes element [] = js_return ()"
| "adoptAttributes element (a # as) =
     js_bind
       (setAttributeValue element (attr_name a) (attr_value a)
          (if attr_prefix a = Str [] then Null else attr_prefix a) (attr_namespace a))
       (\<lambda>_. adoptAttributes element as)"

definition is_value :: "attr list \<Rightarrow> jsval" where
  "is_value attrs =
     (case find (\<lambda>a. attr_name a = ''is'') attrs of
        Some isAttribute \<Rightarrow> Str (attr_value isAttribute)
      | None \<Rightarrow> Null)"

text \<open>The definition that decides whether script will run: the lookup is called with
  the owner document, the namespace and the local name, and no fourth argument.\<close>

definition createElement_definition ::
  "'d env \<Rightarrow> ref option \<Rightarrow> string \<Rightarrow> string \<Rightarrow> attr list \<Rightarrow> world \<Rightarrow> 'd option" where
  "createElement_definition env od lname ns attrs w =
     lookupCEDefinition env od ns lname Undefined w"

definition mark_parserInserted :: "ref \<Rightarrow> (world, unit) js" where
  "mark_parserInserted e =
     js_modify (\<lambda>w. if parserInserted (heap w e) = None then w
                     else update_node e (\<lambda>x. x\<lparr>parserInserted := Some True\<rparr>) w)"

definition createElement ::
  "'d env \<Rightarrow> JSDOMParse5Adapter \<Rightarrow> string \<Rightarrow> string \<Rightarrow> attr list \<Rightarrow> (world, ref) js" where
  "createElement env this lname ns attrs =
     js_bind (adapter_ownerDocument this) (\<lambda>od w.
       let isValue = is_value attrs;
           definition = createElement_definition env od lname ns attrs w;
           willExecuteScript = (definition \<noteq> None \<and> \<not> fragment this)
       in js_bind
            (if willExecuteScript
             then js_bind (counter_add od 1) (\<lambda>_. stack_push [])
             else js_return ())
            (\<lambda>_. js_bind (helper_createElement env od lname ns Null isValue willExecuteScript)
            (\<lambda>element. js_bind (adoptAttributes element attrs)
            (\<lambda>_. js_bind
                   (if willExecuteScript
                    then js_bind stack_pop
                           (\<lambda>queue. js_bind (invokeCEReactions env queue)
                           (\<lambda>_. counter_add od (- 1)))
                    else js_return ())
            (\<lambda>_. js_bind (mark_parserInserted element)
            (\<lambda>_. js_return element))))) w)"

definition createCommentNode :: "JSDOMParse5Adapter \<Rightarrow> string \<Rightarrow> (world, ref) js" where
  "createCommentNode this d =
     js_bind (adapter_ownerDocument this) (\<lambda>od. Comment_createImpl d od)"

definition appendChild :: "ref \<Rightarrow> ref \<Rightarrow> (world, unit) js" where
  "appendChild parent newNode = Node_append parent newNode"

definition insertBefore :: "ref \<Rightarrow> ref \<Rightarrow> ref \<Rightarrow> (world, unit) js" where
  "insertBefore parent newNode referenceNode = Node_insert parent newNode (Some referenceNode)"

text \<open>Destructuring \<open>templateElement._templateContents\<close> when it is \<open>undefined\<close> is a
  TypeError, thrown before anything is written.\<close>

definition setTemplateContent :: "ref \<Rightarrow> ref \<Rightarrow> (world, unit) js" where
  "setTemplateContent templateElement contentFragment =
     (\<lambda>w. case templateContents (heap w templateElement) of
             None \<Rightarrow> (Inl TypeError, w)
           | Some old \<Rightarrow>
               (let od = ownerDocument (heap w old);
                    h = host (heap w old);
                    w1 = update_node contentFragment (\<lambda>x. x\<lparr>ownerDocument := od\<rparr>) w;
                    w2 = update_node contentFragment (\<lambda>x. x\<lparr>host := h\<rparr>) w1
                in (Inr (),
                    update_node templateElement
                      (\<lambda>x. x\<lparr>templateContents := Some contentFragment\<rparr>) w2)))"

definition setDocumentType ::
  "JSDOMParse5Adapter \<Rightarrow> ref \<Rightarrow> string \<Rightarrow> string \<Rightarrow> string \<Rightarrow> (world, unit) js" where
  "setDocumentType this document n p s =
     js_bind (adapter_ownerDocument this)
       (\<lambda>od. js_bind (DocumentType_createImpl n p s od)
       (\<lambda>documentType. Node_append document documentType))"

definition setDocumentMode :: "ref \<Rightarrow> string \<Rightarrow> (world, unit) js" where
  "setDocumentMode document m = js_modify (update_node document (\<lambda>x. x\<lparr>mode := m\<rparr>))"

definition detachNode :: "ref \<Rightarrow> (world, unit) js" where
  "detachNode n = Node_remove n"

definition is_text :: "world \<Rightarrow> ref option \<Rightarrow> bool" where
  "is_text w r = (case r of None \<Rightarrow> False | Some n \<Rightarrow> nodeType (heap w n) = TEXT_NODE)"

definition insertText :: "JSDOMParse5Adapter \<Rightarrow> ref \<Rightarrow> string \<Rightarrow> (world, unit) js" where
  "insertText this parent text =
     (\<lambda>w. if is_text w (lastChild w parent)
           then append_data (lastChild w parent) text w
           else js_bind (adapter_ownerDocument this)
                  (\<lambda>od. js_bind (Text_createImpl text od)
                  (\<lambda>textNode. Node_append parent textNode)) w)"

definition insertTextBefore ::
  "JSDOMParse5Adapter \<Rightarrow> ref \<Rightarrow> string \<Rightarrow> ref \<Rightarrow> (world, unit) js" where
  "insertTextBefore this parent text referenceNode =
     (\<lambda>w. if is_text w (previousSibling w referenceNode)
           then append_data (previousSibling w referenceNode) text w
           else js_bind (adapter_ownerDocument this)
                  (\<lambda>od. js_bind (Text_createImpl text od)
                  (\<lambda>textNode. Node_append parent textNode)) w)"

text \<open>
  The stack hooks write \<open>_currentElement\<close> of the adapter and then call the element's
  optional method; the adapter is part of the state here, so that the write stays when
  the method throws.
\<close>

definition in_world :: "(world, 'a) js \<Rightarrow> (JSDOMParse5Adapter \<times> world, 'a) js" where
  "in_world m = (\<lambda>(a, w). case m w of (r, w') \<Rightarrow> (r, (a, w')))"

definition onItemPush :: "'d env \<Rightarrow> ref \<Rightarrow> (JSDOMParse5Adapter \<times> world, unit) js" where
  "onItemPush env after =
     js_bind (js_modify (\<lambda>(a, w). (a\<lparr>currentElement := Some after\<rparr>, w)))
       (\<lambda>_. in_world (pushedOnStackOfOpenElements env after))"

definition onItemPop ::
  "'d env \<Rightarrow> ref \<Rightarrow> ref option \<Rightarrow> (JSDOMParse5Adapter \<times> world, unit) js" where
  "onItemPop env before_node newTop =
     js_bind (js_modify (\<lambda>(a, w). (a\<lparr>currentElement := newTop\<rparr>, w)))
       (\<lambda>_. in_world (poppedOffStackOfOpenElements env before_node))"

text \<open>
  The calls a tokenizer makes on an adapter, and the state of the adapter and the store
  after a sequence of them. A call that throws leaves the state as it was at the throw;
  the sequence is followed to its end whatever each call returned, so that a statement
  about every sequence covers a parse that was aborted as well.
\<close>

datatype call =
    CreateDocument
  | CreateDocumentFragment
  | CreateElement string string "attr list"
  | CreateCommentNode string
  | AppendChild ref ref
  | InsertBefore ref ref ref
  | SetTemplateContent ref ref
  | SetDocumentType ref string string string
  | SetDocumentMode ref string
  | DetachNode ref
  | InsertText ref string
  | InsertTextBefore ref string ref
  | AdoptAttributes ref "attr list"
  | OnItemPush ref
  | OnItemPop ref "ref option"

definition with_adapter ::
  "(JSDOMParse5Adapter \<Rightarrow> (world, 'a) js) \<Rightarrow> (JSDOMParse5Adapter \<times> world, 'a) js" where
  "with_adapter m = (\<lambda>(a, w). case m a w of (r, w') \<Rightarrow> (r, (a, w')))"

definition returning :: "('b \<Rightarrow> 'c) \<Rightarrow> ('s, 'b) js \<Rightarrow> ('s, 'c) js" where
  "returning f m = js_bind m (\<lambda>x. js_return (f x))"

fun adapter_call :: "'d env \<Rightarrow> call \<Rightarrow> (JSDOMParse5Adapter \<times> world, ref option) js" where
  "adapter_call env CreateDocument = returning Some (with_adapter createDocument)"
| "adapter_call env CreateDocumentFragment =
     returning Some (with_adapter createDocumentFragment)"
| "adapter_call env (CreateCommentNode d) =
     returning Some (with_adapter (\<lambda>a. createCommentNode a d))"
| "adapter_call env (SetDocumentType doc n p s) =
     returning (\<lambda>_. None) (with_adapter (\<lambda>a. setDocumentType a doc n p s))"
| "adapter_call env (SetDocumentMode doc m) =
     returning (\<lambda>_. None) (in_world (setDocumentMode doc m))"
| "adapter_call env (DetachNode n) = returning (\<lambda>_. None) (in_world (detachNode n))"
| "adapter_call env (AdoptAttributes e attrs) =
     returning (\<lambda>_. None) (in_world (adoptAttributes e attrs))"
| "adapter_call env (CreateElement lname ns attrs) =
     returning Some (with_adapter (\<lambda>a. createElement env a lname ns attrs))"
| "adapter_call env (AppendChild p n) = returning (\<lambda>_. None) (in_world (appendChild p n))"
| "adapter_call env (InsertBefore p n r) =
     returning (\<lambda>_. None) (in_world (insertBefore p n r))"
| "adapter_call env (SetTemplateContent t c) =
     returning (\<lambda>_. None) (in_world (setTemplateContent t c))"
| "adapter_call env (InsertText p text) =
     returning (\<lambda>_. None) (with_adapter (\<lambda>a. insertText a p text))"
| "adapter_call env (InsertTextBefore p text r) =
     returning (\<lambda>_. None) (with_adapter (\<lambda>a. insertTextBefore a p text r))"
| "adapter_call env (OnItemPush n) = returning (\<lambda>_. None) (onItemPush env n)"
| "adapter_call env (OnItemPop n t) = returning (\<lambda>_. None) (onItemPop env n t)"

fun drive ::
  "'d env \<Rightarrow> call list \<Rightarrow> JSDOMParse5Adapter \<times> world \<Rightarrow> JSDOMParse5Adapter \<times> world" where
  "drive env [] s = s"
| "drive env (c # cs) s = drive env cs (snd (adapter_call env c s))"

section \<open>The custom-element registry\<close>

text \<open>
  Modelled from the spec: the registry's \<open>define(name, constructionCapability, {extends})\<close>
  and the lookup of a definition for (namespace, localName, is-value). A definition
  registered without \<open>extends\<close> is found by its name as the local name; one registered
  with \<open>extends\<close> is found by the extended local name together with its name as the
  \<open>is\<close> value.
\<close>

record ce_definition =
  ce_name :: string
  ce_extends :: "string option"

definition registry_lookup ::
  "ce_definition list \<Rightarrow> ref option \<Rightarrow> string \<Rightarrow> string \<Rightarrow> jsval \<Rightarrow> world
     \<Rightarrow> ce_definition option" where
  "registry_lookup registry od ns lname isValue w =
     (if ns \<noteq> HTML_NS then None
      else case find (\<lambda>d. ce_name d = lname \<and> ce_extends d = None) registry of
             Some d \<Rightarrow> Some d
           | None \<Rightarrow>
               find (\<lambda>d. Str (ce_name d) = isValue \<and> ce_extends d = Some lname) registry)"

section \<open>Reaction scopes\<close>

text \<open>
  A computation keeps the reaction scopes when, whenever it returns, the stack of reaction
  queues is as deep as before and unchanged below its top queue (to which reactions may
  have been added), no allocated object's throw-on-dynamic-markup-insertion counter has
  changed, and nothing was deallocated.
\<close>

definition keeps_scopes :: "(world, 'a) js \<Rightarrow> bool" where
  "keeps_scopes m =
     (\<forall>w x w'. m w = (Inr x, w') \<longrightarrow>
        length (customElementReactionsStack w') = length (customElementReactionsStack w)
      \<and> butlast (customElementReactionsStack w') = butlast (customElementReactionsStack w)
      \<and> nextRef w \<le> nextRef w'
      \<and> (\<forall>n. n < nextRef w \<longrightarrow>
            throwOnDynamicMarkupInsertionCounter (heap w' n) =
            throwOnDynamicMarkupInsertionCounter (heap w n)))"

text \<open>A computation returns when in no state it throws.\<close>

definition returns :: "('s, 'a) js \<Rightarrow> bool" where
  "returns m = (\<forall>s. \<exists>x s'. m s = (Inr x, s'))"

text \<open>The store in which \<open>createElement\<close> constructs a custom element: the counter of
  the owner document incremented, and a new empty queue pushed.\<close>

definition entered :: "ref \<Rightarrow> world \<Rightarrow> world" where
  "entered doc w =
     (update_node doc
        (\<lambda>x. x\<lparr>throwOnDynamicMarkupInsertionCounter :=
                 throwOnDynamicMarkupInsertionCounter x + 1\<rparr>) w)
     \<lparr>customElementReactionsStack := customElementReactionsStack w @ [[]]\<rparr>"

section \<open>MutationRecordImpl\<close>




text \<open>
  The properties of a record and what reading one gives: a string, a node or none, a
  script value, or a node list, represented by the sequence of nodes it is over.
\<close>

datatype property =
    Get_type
  | Get_target
  | Get_previousSibling
  | Get_nextSibling
  | Get_attributeName
  | Get_attributeNamespace
  | Get_oldValue
  | Get_addedNodes
  | Get_removedNodes

















section \<open>browser/Window.js: timers, microtasks and animation frames\<close>

text \<open>
  A timer handler is a function of the page or a string of source text. The closure
  \<open>task\<close> that \<open>timerInitializationSteps\<close> hands to the host's \<open>setTimeout\<close> is
  represented by the variables it captures.
\<close>

datatype handler = Function nat | Source string

record 'v timer_task =
  task_handler :: handler
  task_timeout :: int
  task_args :: "'v list"
  task_repeat :: bool
  task_handle :: int

text \<open>
  The state that the functions of the window close over, and the host's timers. A window
  has its \<open>_document\<close> until \<open>close\<close> deletes it; \<open>location_href\<close> is what
  \<open>window.location.href\<close> reads while the document is there. The host's part is the
  pending \<open>setTimeout\<close> calls with their delay, the queued microtasks, and whether the
  animation-frame interval is set. The two maps keep their insertion order.
\<close>

record 'v window =
  has_document :: bool
  location_href :: string
  runScripts :: string
  latestTimerId :: int
  listOfActiveTimers :: "(int \<times> nat) list"
  nodejsTimers :: "(nat \<times> 'v timer_task \<times> int) list"
  nextNodejsTimer :: nat
  microtasks :: "nat list"
  animationFrameCallbackId :: int
  mapOfAnimationFrameCallbacks :: "(int \<times> nat) list"
  animationFrameNodejsInterval :: bool
  numberOfOngoingAnimationFrameCallbacks :: int

text \<open>
  Page script is a parameter: what calling a function of the page with given arguments
  does to the window state, and what running source text under a file name in the
  window's context does. Either may throw, and either may call the functions of the
  window below.
\<close>

record 'v script =
  apply_function :: "nat \<Rightarrow> 'v list \<Rightarrow> ('v window, unit) js"
  runInContext :: "string \<Rightarrow> string \<Rightarrow> ('v window, unit) js"

text \<open>
  Modelled from the spec: \<open>reportException\<close> of living/helpers/runtime-script-errors.js,
  the external error-reporting collaborator. It receives the exception and the location;
  what it received is kept beside the window state, out of reach of page script.
\<close>

type_synonym 'v host = "'v window \<times> (error \<times> string) list"

definition reportException :: "error \<Rightarrow> string \<Rightarrow> ('v host, unit) js" where
  "reportException e href = js_modify (\<lambda>(w, reported). (w, reported @ [(e, href)]))"

definition page :: "('v window, 'a) js \<Rightarrow> ('v host, 'a) js" where
  "page m = (\<lambda>(w, reported). case m w of (r, w') \<Rightarrow> (r, (w', reported)))"

text \<open>
  \<open>window.location.href\<close>. The getter of \<open>location\<close> reads \<open>_location\<close> of the
  implementation of \<open>window._document\<close>; once the document was deleted there is no
  implementation to read it from, and the read is a TypeError.
\<close>

definition window_location_href :: "('v window, string) js" where
  "window_location_href =
     (\<lambda>w. if has_document w then (Inr (location_href w), w) else (Inl TypeError, w))"

text \<open>
  The conversions of webidl-conversions, for a number that is an integer: \<open>long\<close> is the
  value modulo \<open>2^32\<close> read as a signed 32-bit integer, \<open>unsigned long\<close> the value modulo
  \<open>2^32\<close>.
\<close>

definition webidl_long :: "int \<Rightarrow> int" where
  "webidl_long x = (x + 2147483648) mod 4294967296 - 2147483648"

definition webidl_unsigned_long :: "int \<Rightarrow> int" where
  "webidl_unsigned_long x = x mod 4294967296"

text \<open>Operations of an insertion-ordered \<open>Map\<close>.\<close>

fun map_set :: "'k \<Rightarrow> 'a \<Rightarrow> ('k \<times> 'a) list \<Rightarrow> ('k \<times> 'a) list" where
  "map_set k v [] = [(k, v)]"
| "map_set k v ((k', v') # kvs) =
     (if k' = k then (k, v) # kvs else (k', v') # map_set k v kvs)"

definition map_delete :: "'k \<Rightarrow> ('k \<times> 'a) list \<Rightarrow> ('k \<times> 'a) list" where
  "map_delete k kvs = filter (\<lambda>kv. fst kv \<noteq> k) kvs"

definition map_has :: "'k \<Rightarrow> ('k \<times> 'a) list \<Rightarrow> bool" where
  "map_has k kvs = (map_of kvs k \<noteq> None)"

text \<open>The host's \<open>setTimeout\<close> and \<open>clearTimeout\<close>.\<close>

definition host_setTimeout :: "'v timer_task \<Rightarrow> int \<Rightarrow> ('v window, nat) js" where
  "host_setTimeout t delay =
     (\<lambda>w. (Inr (nextNodejsTimer w),
           w\<lparr>nodejsTimers := nodejsTimers w @ [(nextNodejsTimer w, t, delay)],
             nextNodejsTimer := Suc (nextNodejsTimer w)\<rparr>))"

definition host_clearTimeout :: "nat \<Rightarrow> ('v window, unit) js" where
  "host_clearTimeout nodejsTimer =
     js_modify (\<lambda>w. w\<lparr>nodejsTimers := filter (\<lambda>x. fst x \<noteq> nodejsTimer) (nodejsTimers w)\<rparr>)"

definition timerInitializationSteps ::
  "handler \<Rightarrow> int \<Rightarrow> 'v list \<Rightarrow> bool \<Rightarrow> int option \<Rightarrow> ('v window, int) js" where
  "timerInitializationSteps h timeout args repeat previousHandle =
     (\<lambda>w. if \<not> has_document w then (Inr 0, w)
           else
             let handle = (case previousHandle of
                             Some p \<Rightarrow> p
                           | None \<Rightarrow> latestTimerId w + 1);
                 w1 = (case previousHandle of
                         Some p \<Rightarrow> w
                       | None \<Rightarrow> w\<lparr>latestTimerId := latestTimerId w + 1\<rparr>);
                 timeout' = (if timeout < 0 then 0 else timeout)
             in js_bind
                  (host_setTimeout
                     \<lparr>task_handler = h, task_timeout = timeout', task_args = args,
                      task_repeat = repeat, task_handle = handle\<rparr> timeout')
                  (\<lambda>nodejsTimer. js_bind
                     (js_modify (\<lambda>w. w\<lparr>listOfActiveTimers :=
                                          map_set handle nodejsTimer (listOfActiveTimers w)\<rparr>))
                  (\<lambda>_. js_return handle)) w1)"

definition setTimeout :: "handler \<Rightarrow> int \<Rightarrow> 'v list \<Rightarrow> ('v window, int) js" where
  "setTimeout h timeout args =
     timerInitializationSteps h (webidl_long timeout) args False None"

definition setInterval :: "handler \<Rightarrow> int \<Rightarrow> 'v list \<Rightarrow> ('v window, int) js" where
  "setInterval h timeout args =
     timerInitializationSteps h (webidl_long timeout) args True None"

definition clearTimeout :: "int \<Rightarrow> ('v window, unit) js" where
  "clearTimeout handle =
     (\<lambda>w. case map_of (listOfActiveTimers w) (webidl_long handle) of
             Some nodejsTimer \<Rightarrow>
               js_bind (host_clearTimeout nodejsTimer)
                 (\<lambda>_. js_modify (\<lambda>w. w\<lparr>listOfActiveTimers :=
                          map_delete (webidl_long handle) (listOfActiveTimers w)\<rparr>)) w
           | None \<Rightarrow> (Inr (), w))"

definition clearInterval :: "int \<Rightarrow> ('v window, unit) js" where
  "clearInterval handle = clearTimeout handle"

text \<open>
  The closure \<open>task\<close> of \<open>timerInitializationSteps\<close>, as the host calls it: the body
  of its \<open>try\<close> (running source text reads \<open>window.location.href\<close> for the file name
  first), its \<open>catch\<close> (the arguments of \<open>reportException\<close> are evaluated before the
  call, \<open>window.location.href\<close> among them), the statements after the \<open>catch\<close>, and the
  whole.
\<close>

definition run_handler :: "'v script \<Rightarrow> 'v timer_task \<Rightarrow> ('v window, unit) js" where
  "run_handler env t =
     (\<lambda>w. case task_handler t of
             Function f \<Rightarrow> apply_function env f (task_args t) w
           | Source src \<Rightarrow>
               if runScripts w = ''dangerously''
               then js_bind window_location_href (\<lambda>filename. runInContext env src filename) w
               else (Inr (), w))"

definition report :: "error \<Rightarrow> ('v host, unit) js" where
  "report e = js_bind (page window_location_href) (\<lambda>href. reportException e href)"

definition after_handler :: "'v timer_task \<Rightarrow> ('v window, unit) js" where
  "after_handler t =
     (\<lambda>w. if map_has (task_handle t) (listOfActiveTimers w)
           then if task_repeat t
                then js_bind
                       (timerInitializationSteps (task_handler t) (task_timeout t)
                          (task_args t) True (Some (task_handle t)))
                       (\<lambda>_. js_return ()) w
                else js_modify (\<lambda>w. w\<lparr>listOfActiveTimers :=
                                 map_delete (task_handle t) (listOfActiveTimers w)\<rparr>) w
           else (Inr (), w))"

definition task :: "'v script \<Rightarrow> 'v timer_task \<Rightarrow> ('v host, unit) js" where
  "task env t =
     (\<lambda>s. if \<not> map_has (task_handle t) (listOfActiveTimers (fst s)) then (Inr (), s)
           else js_bind
                  (js_try_catch (page (run_handler env t)) (\<lambda>e. report e))
                  (\<lambda>_. page (after_handler t)) s)"

text \<open>\<open>queueMicrotask\<close>, with the callback already converted to a function, and the
  closure that the host's microtask queue calls.\<close>

definition queueMicrotask :: "nat \<Rightarrow> ('v window, unit) js" where
  "queueMicrotask callback = js_modify (\<lambda>w. w\<lparr>microtasks := microtasks w @ [callback]\<rparr>)"

definition microtask :: "'v script \<Rightarrow> nat \<Rightarrow> ('v host, unit) js" where
  "microtask env callback =
     js_try_catch (page (apply_function env callback [])) (\<lambda>e. report e)"

definition requestAnimationFrame :: "nat \<Rightarrow> ('v window, int) js" where
  "requestAnimationFrame callback =
     (\<lambda>w. let handle = animationFrameCallbackId w + 1;
               w1 = w\<lparr>animationFrameCallbackId := handle,
                      mapOfAnimationFrameCallbacks :=
                        map_set handle callback (mapOfAnimationFrameCallbacks w),
                      numberOfOngoingAnimationFrameCallbacks :=
                        numberOfOngoingAnimationFrameCallbacks w + 1\<rparr>
           in (Inr handle,
               if numberOfOngoingAnimationFrameCallbacks w1 = 1
               then w1\<lparr>animationFrameNodejsInterval := True\<rparr> else w1))"

definition removeAnimationFrameCallback :: "int \<Rightarrow> ('v window, unit) js" where
  "removeAnimationFrameCallback handle =
     js_modify (\<lambda>w.
       let w1 = (if map_has handle (mapOfAnimationFrameCallbacks w)
                 then let w' = w\<lparr>numberOfOngoingAnimationFrameCallbacks :=
                                   numberOfOngoingAnimationFrameCallbacks w - 1\<rparr>
                      in if numberOfOngoingAnimationFrameCallbacks w' = 0
                         then w'\<lparr>animationFrameNodejsInterval := False\<rparr> else w'
                 else w)
       in w1\<lparr>mapOfAnimationFrameCallbacks :=
                map_delete handle (mapOfAnimationFrameCallbacks w1)\<rparr>)"

definition cancelAnimationFrame :: "int \<Rightarrow> ('v window, unit) js" where
  "cancelAnimationFrame handle = removeAnimationFrameCallback (webidl_unsigned_long handle)"

text \<open>
  \<open>runAnimationFrameCallbacks\<close>: the loop over the snapshot of the handles. An exception
  that leaves the body of the loop leaves the loop, and the handles after it are not
  visited.
\<close>

fun run_handles :: "'v script \<Rightarrow> 'v \<Rightarrow> int list \<Rightarrow> ('v host, unit) js" where
  "run_handles env now [] = js_return ()"
| "run_handles env now (handle # handles) =
     js_bind
       (\<lambda>s. case map_of (mapOfAnimationFrameCallbacks (fst s)) handle of
               Some callback \<Rightarrow>
                 js_bind (page (removeAnimationFrameCallback handle))
                   (\<lambda>_. js_try_catch (page (apply_function env callback [now]))
                          (\<lambda>e. report e)) s
             | None \<Rightarrow> (Inr (), s))
       (\<lambda>_. run_handles env now handles)"

definition runAnimationFrameCallbacks :: "'v script \<Rightarrow> 'v \<Rightarrow> ('v host, unit) js" where
  "runAnimationFrameCallbacks env now =
     (\<lambda>s. run_handles env now (map fst (mapOfAnimationFrameCallbacks (fst s))) s)"

text \<open>
  \<open>stopAllTimers\<close>, and \<open>close\<close> as far as it acts on this state: it deletes the
  document of the window and stops all timers. Its other statements act on the child
  frames, the event listeners, the body and the request manager of the document and the
  web sockets.
\<close>

definition stopAllTimers :: "('v window, unit) js" where
  "stopAllTimers =
     js_modify (\<lambda>w.
       w\<lparr>nodejsTimers :=
            filter (\<lambda>x. fst x \<notin> set (map snd (listOfActiveTimers w))) (nodejsTimers w),
         listOfActiveTimers := [],
         animationFrameNodejsInterval := False\<rparr>)"

definition close :: "('v window, unit) js" where
  "close = js_bind (js_modify (\<lambda>w. w\<lparr>has_document := False\<rparr>)) (\<lambda>_. stopAllTimers)"

section \<open>A concrete store for closed statements\<close>

text \<open>Object 0 is a document, object 1 a \<open>div\<close> element of it; nothing else is allocated,
  every array is empty and no mutation record was made.\<close>

definition no_record :: MutationRecordImpl where
  "no_record = \<lparr>mr_type = [], mr_target = 0, mr_previousSibling = None,
     mr_nextSibling = None, mr_attributeName = Null, mr_attributeNamespace = Null,
     mr_oldValue = Null, mr_addedNodes = 0, mr_removedNodes = 0\<rparr>"

definition w0 :: world where
  "w0 = \<lparr>heap = (\<lambda>_. blank)
            (0 := blank\<lparr>nodeType := DOCUMENT_NODE, childNodes := [1]\<rparr>,
             1 := blank\<lparr>localName := ''div'', namespaceURI := Str HTML_NS,
                        parentNode := Some 0, ownerDocument := Some 0\<rparr>),
          nextRef = 2, customElementReactionsStack = [], backupQueue = [],
          arrays = (\<lambda>_. []), mutationRecords = (\<lambda>_. no_record)\<rparr>"

text \<open>An adapter for parsing into document 0, and a store where the \<open>div\<close> already ends in
  a Text node.\<close>

definition a0 :: JSDOMParse5Adapter where
  "a0 = JSDOMParse5Adapter_new 0 None"

definition w_text :: world where
  "w_text = w0\<lparr>heap := (heap w0)
       (1 := (heap w0 1)\<lparr>childNodes := [2]\<rparr>,
        2 := blank\<lparr>nodeType := TEXT_NODE, data := ''ab'', parentNode := Some 1,
                   ownerDocument := Some 0\<rparr>),
     nextRef := 3\<rparr>"

text \<open>
  A store with a template element (object 2) whose content fragment (object 3, owned by
  the inert document 4) was allocated at construction, and a fragment made for the
  tokenizer (object 5).
\<close>

definition w_template :: world where
  "w_template = w0\<lparr>heap := (heap w0)
       (1 := (heap w0 1)\<lparr>childNodes := [2]\<rparr>,
        2 := blank\<lparr>localName := ''template'', namespaceURI := Str HTML_NS,
                   parentNode := Some 1, ownerDocument := Some 0,
                   templateContents := Some 3\<rparr>,
        3 := blank\<lparr>nodeType := DOCUMENT_FRAGMENT_NODE, ownerDocument := Some 4,
                   host := Some 2\<rparr>,
        4 := blank\<lparr>nodeType := DOCUMENT_NODE\<rparr>,
        5 := blank\<lparr>nodeType := DOCUMENT_FRAGMENT_NODE, ownerDocument := Some 0\<rparr>),
     nextRef := 6\<rparr>"

text \<open>A store where the \<open>div\<close> holds a \<open>table\<close> (object 2) and nothing else.\<close>

definition w_table :: world where
  "w_table = w0\<lparr>heap := (heap w0)
       (1 := (heap w0 1)\<lparr>childNodes := [2]\<rparr>,
        2 := blank\<lparr>localName := ''table'', namespaceURI := Str HTML_NS,
                   parentNode := Some 1, ownerDocument := Some 0\<rparr>),
     nextRef := 3\<rparr>"

text \<open>The attribute \<open>is\<close> of a token, with no prefix and no namespace.\<close>

definition is_attr :: "string \<Rightarrow> attr" where
  "is_attr v =
     \<lparr>attr_name = ''is'', attr_value = v, attr_prefix = Undefined, attr_namespace = Undefined\<rparr>"

text \<open>
  A registry with two autonomous custom elements and one customized built-in element,
  and stand-ins for the absent helpers. The element factory allocates the element and,
  when it constructs synchronously, enqueues one reaction for it, as a constructor that
  sets an observed attribute does. The invocation of a queue appends the local name of
  each element and the name of its callback to the data of object 0, as a callback that
  writes a log does. With \<open>env_x\<close> the constructor of \<open>x-el\<close> creates a \<open>y-el\<close>
  through an adapter before it returns.
\<close>

definition registry0 :: "ce_definition list" where
  "registry0 =
     [\<lparr>ce_name = ''x-el'', ce_extends = None\<rparr>,
      \<lparr>ce_name = ''y-el'', ce_extends = None\<rparr>,
      \<lparr>ce_name = ''fancy-button'', ce_extends = Some ''button''\<rparr>]"

definition make_element :: "ref option \<Rightarrow> string \<Rightarrow> string \<Rightarrow> (world, ref) js" where
  "make_element od lname ns =
     allocate (blank\<lparr>localName := lname, namespaceURI := Str ns, ownerDocument := od\<rparr>)"

definition plain_helper ::
  "ref option \<Rightarrow> string \<Rightarrow> string \<Rightarrow> jsval \<Rightarrow> jsval \<Rightarrow> bool \<Rightarrow> (world, ref) js" where
  "plain_helper od lname ns prefix isValue synchronousCE =
     js_bind (make_element od lname ns)
       (\<lambda>e. js_bind
               (js_modify (if synchronousCE
                           then enqueue (Callback e ''connectedCallback'' [])
                           else id))
       (\<lambda>_. js_return e))"

fun run_reactions :: "reaction list \<Rightarrow> world \<Rightarrow> world" where
  "run_reactions [] w = w"
| "run_reactions (Callback e name args # rs) w =
     run_reactions rs
       (update_node 0 (\<lambda>x. x\<lparr>data := data x @ localName (heap w e) @ ''.'' @ name @ '';''\<rparr>) w)"
| "run_reactions (Upgrade e name # rs) w = run_reactions rs w"

definition invoke0 :: "reaction list option \<Rightarrow> (world, unit) js" where
  "invoke0 queue =
     (case queue of None \<Rightarrow> js_throw TypeError | Some rs \<Rightarrow> js_modify (run_reactions rs))"

definition env_y :: "ce_definition env" where
  "env_y = \<lparr>lookupCEDefinition = registry_lookup registry0,
            helper_createElement = plain_helper,
            invokeCEReactions = invoke0,
            pushedOnStackOfOpenElements = (\<lambda>_. js_return ()),
            poppedOffStackOfOpenElements = (\<lambda>_. js_return ())\<rparr>"

definition nesting_helper ::
  "ref option \<Rightarrow> string \<Rightarrow> string \<Rightarrow> jsval \<Rightarrow> jsval \<Rightarrow> bool \<Rightarrow> (world, ref) js" where
  "nesting_helper od lname ns prefix isValue synchronousCE =
     js_bind (plain_helper od lname ns prefix isValue synchronousCE)
       (\<lambda>e. if synchronousCE \<and> lname = ''x-el''
             then js_bind (createElement env_y a0 ''y-el'' HTML_NS []) (\<lambda>_. js_return e)
             else js_return e)"

definition env_x :: "ce_definition env" where
  "env_x = env_y\<lparr>helper_createElement := nesting_helper\<rparr>"



text \<open>
  A window with one timer pending, whose handler is function 20, and three
  animation-frame callbacks registered. Every function of the page queues itself as a
  microtask when it is called, which records that it ran. With \<open>script0\<close> function 20 then
  throws; with \<open>script1\<close> it closes the window and then throws.
\<close>

definition task1 :: "nat timer_task" where
  "task1 = \<lparr>task_handler = Function 20, task_timeout = 0, task_args = [],
            task_repeat = False, task_handle = 1\<rparr>"

definition window0 :: "nat window" where
  "window0 = \<lparr>has_document = True, location_href = ''about:blank'',
     runScripts = ''dangerously'', latestTimerId = 1,
     listOfActiveTimers = [(1, 0)], nodejsTimers = [(0, task1, 0)], nextNodejsTimer = 1,
     microtasks = [],
     animationFrameCallbackId = 3, mapOfAnimationFrameCallbacks = [(1, 10), (2, 20), (3, 30)],
     animationFrameNodejsInterval = True, numberOfOngoingAnimationFrameCallbacks = 3\<rparr>"

definition script0 :: "nat script" where
  "script0 =
     \<lparr>apply_function = (\<lambda>f args. js_bind (queueMicrotask f)
          (\<lambda>_. if f = 20 then js_throw (Thrown 7) else js_return ())),
      runInContext = (\<lambda>src filename. js_return ())\<rparr>"

definition script1 :: "nat script" where
  "script1 =
     \<lparr>apply_function = (\<lambda>f args. js_bind (queueMicrotask f)
          (\<lambda>_. if f = 20 then js_bind close (\<lambda>_. js_throw (Thrown 7)) else js_return ())),
      runInContext = (\<lambda>src filename. js_return ())\<rparr>"

section \<open>Properties of the dataset map\<close>

lemma test_hyphen_lower_at:
  "Suc i < length name \<Longrightarrow> name ! i = CHR ''-'' \<Longrightarrow> is_lower_az (name ! Suc i)
     \<Longrightarrow> test_hyphen_lower name"
proof (induction name arbitrary: i rule: test_hyphen_lower.induct)
  case (1 c d cs)
  show ?case
  proof (cases i)
    case 0
    with "1.prems" show ?thesis by simp
  next
    case (Suc j)
    with "1.prems" have "test_hyphen_lower (d # cs)"
      by (intro "1.IH"[of j]) simp_all
    then show ?thesis by simp
  qed
qed simp_all

text \<open>
  C8. A dataset property name in which a hyphen is directly followed by a lowercase ASCII
  letter makes the named-set operation (for a new and for an existing property) throw a
  DOMException named SyntaxError, and the whole state, so also the attribute list of the
  element, is as it was before the call.
\<close>

theorem namedSet_hyphen_lower_throws_SyntaxError:
  assumes "Suc i < length name"
    and "name ! i = CHR ''-''"
    and "is_lower_az (name ! Suc i)"
  shows "namedSetNew validateName this name v w =
           (Inl (DOMException (not_valid_message name) ''SyntaxError''), w)
       \<and> namedSetExisting validateName this name v w =
           (Inl (DOMException (not_valid_message name) ''SyntaxError''), w)
       \<and> attributes (heap (snd (namedSetNew validateName this name v w)) (dataset_element this)) =
           attributes (heap w (dataset_element this))"
proof -
  have "test_hyphen_lower name"
    using assms by (rule test_hyphen_lower_at)
  then show ?thesis
    by (simp add: namedSetNew_def namedSetExisting_def js_throw_def)
qed

theorem namedSet_hyphen_lower_throws_SyntaxError_witness:
  "Suc 3 < length ''foo-bar'' \<and> ''foo-bar'' ! 3 = CHR ''-'' \<and> is_lower_az (''foo-bar'' ! Suc 3)
   \<and> namedSetNew (\<lambda>_. js_return ()) \<lparr>dataset_element = 1\<rparr> ''foo-bar'' ''x'' w0 =
       (Inl (DOMException (not_valid_message ''foo-bar'') ''SyntaxError''), w0)
   \<and> namedSetExisting (\<lambda>_. js_return ()) \<lparr>dataset_element = 1\<rparr> ''foo-bar'' ''x'' w0 =
       (Inl (DOMException (not_valid_message ''foo-bar'') ''SyntaxError''), w0)"
  using namedSet_hyphen_lower_throws_SyntaxError [of 3 "''foo-bar''"]
  by (simp add: is_lower_az_def)

section \<open>Properties of the parser adapter\<close>

subsection \<open>createDocument\<close>

lemma adapter_ownerDocument_state: "snd (adapter_ownerDocument this w) = w"
  by (simp add: adapter_ownerDocument_def split: option.splits)

lemma adapter_call_documentImpl:
  "documentImpl (fst (snd (adapter_call env c (a, w)))) = documentImpl a"
  by (cases c)
     (auto simp: returning_def with_adapter_def in_world_def js_bind_def js_return_def
        onItemPush_def onItemPop_def js_modify_def split: prod.splits sum.splits)

lemma drive_documentImpl:
  "documentImpl (fst (drive env cs s)) = documentImpl (fst s)"
proof (induction cs arbitrary: s)
  case Nil
  show ?case by simp
next
  case (Cons c cs)
  obtain a w where s: "s = (a, w)" by (cases s)
  have "documentImpl (fst (drive env (c # cs) s)) =
        documentImpl (fst (snd (adapter_call env c s)))"
    by (simp add: Cons.IH)
  also have "\<dots> = documentImpl (fst s)"
    unfolding s by (simp add: adapter_call_documentImpl)
  finally show ?case .
qed

text \<open>
  C10. Whatever calls were made on an adapter since its construction, and in whatever
  store, \<open>createDocument\<close> returns the document the adapter was constructed with and
  leaves the store as it is: nothing is allocated, and any two calls return the same
  object.
\<close>

theorem createDocument_returns_constructed_document:
  "createDocument (fst (drive env cs (JSDOMParse5Adapter_new d opts, w))) w' = (Inr d, w')"
  by (simp add: createDocument_def js_return_def drive_documentImpl JSDOMParse5Adapter_new_def)

subsection \<open>setTemplateContent\<close>

text \<open>
  C5. For a template element whose content fragment is allocated, \<open>setTemplateContent\<close>
  returns normally; afterwards the template element differs from before only in its
  content, which is the given fragment; the given fragment differs only in its owner
  document and host, which are those of the fragment allocated before; every other
  object, the allocation pointer and the reaction queues are unchanged.
\<close>

theorem setTemplateContent_frame:
  assumes "templateContents (heap w t) = Some old"
    and "nodeType (heap w t) = ELEMENT_NODE"
    and "nodeType (heap w cf) = DOCUMENT_FRAGMENT_NODE"
  shows "fst (setTemplateContent t cf w) = Inr ()
       \<and> heap (snd (setTemplateContent t cf w)) t = (heap w t)\<lparr>templateContents := Some cf\<rparr>
       \<and> heap (snd (setTemplateContent t cf w)) cf =
           (heap w cf)\<lparr>ownerDocument := ownerDocument (heap w old), host := host (heap w old)\<rparr>
       \<and> (\<forall>n. n \<noteq> t \<longrightarrow> n \<noteq> cf \<longrightarrow> heap (snd (setTemplateContent t cf w)) n = heap w n)
       \<and> nextRef (snd (setTemplateContent t cf w)) = nextRef w
       \<and> customElementReactionsStack (snd (setTemplateContent t cf w)) =
           customElementReactionsStack w
       \<and> backupQueue (snd (setTemplateContent t cf w)) = backupQueue w"
proof -
  from assms have "t \<noteq> cf" by auto
  with assms(1) show ?thesis
    by (simp add: setTemplateContent_def update_node_def Let_def)
qed

theorem setTemplateContent_frame_witness:
  "templateContents (heap w_template 2) = Some 3
   \<and> nodeType (heap w_template 2) = ELEMENT_NODE
   \<and> nodeType (heap w_template 5) = DOCUMENT_FRAGMENT_NODE
   \<and> fst (setTemplateContent 2 5 w_template) = Inr ()
   \<and> templateContents (heap (snd (setTemplateContent 2 5 w_template)) 2) = Some 5
   \<and> localName (heap (snd (setTemplateContent 2 5 w_template)) 2) = ''template''
   \<and> ownerDocument (heap (snd (setTemplateContent 2 5 w_template)) 5) = Some 4
   \<and> host (heap (snd (setTemplateContent 2 5 w_template)) 5) = Some 2"
  using setTemplateContent_frame [of w_template 2 3 5]
  by (simp add: w_template_def w0_def blank_def)

text \<open>
  C6, as the claim states it, fails: object 1 of the store \<open>w_template\<close> is a \<open>div\<close> with
  no template contents, and the call on it throws a TypeError, not a DOMException named
  InvalidStateError.
\<close>

theorem setTemplateContent_not_InvalidStateError:
  "templateContents (heap w_template 1) = None
   \<and> fst (setTemplateContent 1 5 w_template) = Inl TypeError
   \<and> (\<forall>msg. fst (setTemplateContent 1 5 w_template) \<noteq>
              Inl (DOMException msg ''InvalidStateError''))"
  by (simp add: setTemplateContent_def w_template_def w0_def blank_def)

text \<open>
  C6, amended. On a node with no allocated template contents, \<open>setTemplateContent\<close>
  throws a TypeError to its caller, and nothing has been written when it is thrown.
\<close>

theorem setTemplateContent_non_template_TypeError:
  "templateContents (heap w n) = None \<Longrightarrow> setTemplateContent n cf w = (Inl TypeError, w)"
  by (simp add: setTemplateContent_def)

theorem setTemplateContent_non_template_TypeError_witness:
  "templateContents (heap w_template 1) = None
   \<and> setTemplateContent 1 5 w_template = (Inl TypeError, w_template)"
  using setTemplateContent_non_template_TypeError [of w_template 1 5]
  by (simp add: w_template_def w0_def blank_def)

subsection \<open>insertText\<close>

lemma insertText_merge:
  assumes "lastChild w parent = Some lc" and "nodeType (heap w lc) = TEXT_NODE"
  shows "insertText this parent text w =
           (Inr (), update_node lc (\<lambda>x. x\<lparr>data := data x @ text\<rparr>) w)"
  using assms by (simp add: insertText_def is_text_def append_data_def js_modify_def)

lemma insertText_create:
  assumes "\<not> is_text w (lastChild w parent)"
    and "fst (adapter_ownerDocument this w) = Inr od"
    and "parent < nextRef w"
  shows "fst (insertText this parent text w) = Inr ()"
    and "childNodes (heap (snd (insertText this parent text w)) parent) =
           childNodes (heap w parent) @ [nextRef w]"
    and "heap (snd (insertText this parent text w)) (nextRef w) =
           blank\<lparr>nodeType := TEXT_NODE, data := text, ownerDocument := od,
                 parentNode := Some parent\<rparr>"
    and "nextRef (snd (insertText this parent text w)) = Suc (nextRef w)"
    and "\<forall>n. n \<noteq> parent \<longrightarrow> n \<noteq> nextRef w \<longrightarrow> heap (snd (insertText this parent text w)) n = heap w n"
proof -
  have od: "adapter_ownerDocument this w = (Inr od, w)"
    using assms(2) adapter_ownerDocument_state [of this w]
    by (cases "adapter_ownerDocument this w") simp
  have ne: "parent \<noteq> nextRef w" using assms(3) by simp
  have eq: "insertText this parent text w =
     (Inr (), update_node (nextRef w) (\<lambda>x. x\<lparr>parentNode := Some parent\<rparr>)
         (update_node parent (\<lambda>x. x\<lparr>childNodes := childNodes x @ [nextRef w]\<rparr>)
            (w\<lparr>heap := (heap w)(nextRef w :=
                 blank\<lparr>nodeType := TEXT_NODE, data := text, ownerDocument := od\<rparr>),
             nextRef := Suc (nextRef w)\<rparr>)))"
    using assms(1) od
    by (simp add: insertText_def js_bind_def Text_createImpl_def allocate_def Node_append_def Node_insert_def
        js_modify_def unlink_def blank_def update_node_def)
  show "fst (insertText this parent text w) = Inr ()" by (simp add: eq)
  show "childNodes (heap (snd (insertText this parent text w)) parent) =
           childNodes (heap w parent) @ [nextRef w]"
    using ne by (simp add: eq update_node_def)
  show "heap (snd (insertText this parent text w)) (nextRef w) =
           blank\<lparr>nodeType := TEXT_NODE, data := text, ownerDocument := od,
                 parentNode := Some parent\<rparr>"
    using ne by (simp add: eq update_node_def)
  show "nextRef (snd (insertText this parent text w)) = Suc (nextRef w)"
    by (simp add: eq update_node_def)
  show "\<forall>n. n \<noteq> parent \<longrightarrow> n \<noteq> nextRef w \<longrightarrow> heap (snd (insertText this parent text w)) n = heap w n"
    by (simp add: eq update_node_def)
qed

lemma lastChild_snoc:
  assumes "childNodes (heap w p) = cs @ [n]"
  shows "lastChild w p = Some n"
proof -
  obtain c cs' where e: "cs @ [n] = c # cs'" by (cases cs) auto
  then have "last (c # cs') = n" by (metis last_snoc)
  with e assms show ?thesis by (simp add: lastChild_def)
qed

text \<open>
  C2. When the last child of the parent is a Text node, \<open>insertText\<close> appends the
  characters to the data of that node and changes nothing else, so no node is created.
  Otherwise (for an allocated parent, and when the adapter's owner document can be read)
  it allocates one Text node holding the characters and makes it the new last child.
  Hence two calls with "ab" and then "cd" at a point that does not end in a Text node
  leave one new node there, a Text node with data "abcd".
\<close>

theorem insertText_merges_or_appends:
  "(\<forall>lc. lastChild w parent = Some lc \<and> nodeType (heap w lc) = TEXT_NODE \<longrightarrow>
       insertText this parent chars w =
         (Inr (), update_node lc (\<lambda>x. x\<lparr>data := data x @ chars\<rparr>) w))
   \<and> (\<not> is_text w (lastChild w parent) \<and> parent < nextRef w
        \<and> fst (adapter_ownerDocument this w) = Inr od \<longrightarrow>
       fst (insertText this parent chars w) = Inr ()
       \<and> childNodes (heap (snd (insertText this parent chars w)) parent) =
           childNodes (heap w parent) @ [nextRef w]
       \<and> heap (snd (insertText this parent chars w)) (nextRef w) =
           blank\<lparr>nodeType := TEXT_NODE, data := chars, ownerDocument := od,
                 parentNode := Some parent\<rparr>
       \<and> nextRef (snd (insertText this parent chars w)) = Suc (nextRef w)
       \<and> (\<forall>n. n \<noteq> parent \<longrightarrow> n \<noteq> nextRef w \<longrightarrow>
             heap (snd (insertText this parent chars w)) n = heap w n))
   \<and> (\<not> is_text w (lastChild w parent) \<and> parent < nextRef w
        \<and> fst (adapter_ownerDocument this w) = Inr od \<longrightarrow>
       childNodes (heap (snd (insertText this parent ''cd''
                          (snd (insertText this parent ''ab'' w)))) parent) =
         childNodes (heap w parent) @ [nextRef w]
       \<and> nodeType (heap (snd (insertText this parent ''cd''
                          (snd (insertText this parent ''ab'' w)))) (nextRef w)) = TEXT_NODE
       \<and> data (heap (snd (insertText this parent ''cd''
                          (snd (insertText this parent ''ab'' w)))) (nextRef w)) = ''abcd''
       \<and> nextRef (snd (insertText this parent ''cd''
                          (snd (insertText this parent ''ab'' w)))) = Suc (nextRef w))"
proof (intro conjI allI impI)
  fix lc
  assume "lastChild w parent = Some lc \<and> nodeType (heap w lc) = TEXT_NODE"
  then show "insertText this parent chars w =
         (Inr (), update_node lc (\<lambda>x. x\<lparr>data := data x @ chars\<rparr>) w)"
    by (simp add: insertText_merge)
next
  assume h: "\<not> is_text w (lastChild w parent) \<and> parent < nextRef w
        \<and> fst (adapter_ownerDocument this w) = Inr od"
  then show "fst (insertText this parent chars w) = Inr ()"
    and "childNodes (heap (snd (insertText this parent chars w)) parent) =
           childNodes (heap w parent) @ [nextRef w]"
    and "heap (snd (insertText this parent chars w)) (nextRef w) =
           blank\<lparr>nodeType := TEXT_NODE, data := chars, ownerDocument := od,
                 parentNode := Some parent\<rparr>"
    and "nextRef (snd (insertText this parent chars w)) = Suc (nextRef w)"
    by (simp_all add: insertText_create)
  fix n assume "n \<noteq> parent" "n \<noteq> nextRef w"
  from h have "\<forall>n. n \<noteq> parent \<longrightarrow> n \<noteq> nextRef w \<longrightarrow>
      heap (snd (insertText this parent chars w)) n = heap w n"
    by (intro insertText_create(5)) simp_all
  with \<open>n \<noteq> parent\<close> \<open>n \<noteq> nextRef w\<close>
  show "heap (snd (insertText this parent chars w)) n = heap w n"
    by simp
next
  assume h: "\<not> is_text w (lastChild w parent) \<and> parent < nextRef w
        \<and> fst (adapter_ownerDocument this w) = Inr od"
  define w1 where "w1 = snd (insertText this parent ''ab'' w)"
  have c1: "childNodes (heap w1 parent) = childNodes (heap w parent) @ [nextRef w]"
    and n1: "heap w1 (nextRef w) =
           blank\<lparr>nodeType := TEXT_NODE, data := ''ab'', ownerDocument := od,
                 parentNode := Some parent\<rparr>"
    and r1: "nextRef w1 = Suc (nextRef w)"
    using h unfolding w1_def by (simp_all add: insertText_create)
  have ne: "parent \<noteq> nextRef w" using h by simp
  have lc: "lastChild w1 parent = Some (nextRef w)"
    using c1 by (rule lastChild_snoc)
  have ty: "nodeType (heap w1 (nextRef w)) = TEXT_NODE"
    by (simp add: n1)
  have eq: "insertText this parent ''cd'' w1 =
      (Inr (), update_node (nextRef w) (\<lambda>x. x\<lparr>data := data x @ ''cd''\<rparr>) w1)"
    using lc ty by (rule insertText_merge)
  show "childNodes (heap (snd (insertText this parent ''cd''
                          (snd (insertText this parent ''ab'' w)))) parent) =
         childNodes (heap w parent) @ [nextRef w]"
    using ne unfolding w1_def [symmetric] eq by (simp add: update_node_def c1)
  show "nodeType (heap (snd (insertText this parent ''cd''
                          (snd (insertText this parent ''ab'' w)))) (nextRef w)) = TEXT_NODE"
    unfolding w1_def [symmetric] eq by (simp add: update_node_def n1)
  show "data (heap (snd (insertText this parent ''cd''
                          (snd (insertText this parent ''ab'' w)))) (nextRef w)) = ''abcd''"
    unfolding w1_def [symmetric] eq by (simp add: update_node_def n1 blank_def)
  show "nextRef (snd (insertText this parent ''cd''
                          (snd (insertText this parent ''ab'' w)))) = Suc (nextRef w)"
    unfolding w1_def [symmetric] eq by (simp add: update_node_def r1)
qed

lemma w0_facts:
  "\<not> is_text w0 (lastChild w0 1)" "(1::nat) < nextRef w0"
  "fst (adapter_ownerDocument a0 w0) = Inr (Some 0)"
  by (simp_all add: w0_def is_text_def lastChild_def blank_def a0_def
      adapter_ownerDocument_def JSDOMParse5Adapter_new_def)

theorem insertText_merges_or_appends_witness:
  "childNodes (heap (snd (insertText a0 1 ''cd'' (snd (insertText a0 1 ''ab'' w0)))) 1) = [2]
   \<and> data (heap (snd (insertText a0 1 ''cd'' (snd (insertText a0 1 ''ab'' w0)))) 2) = ''abcd''
   \<and> nextRef (snd (insertText a0 1 ''cd'' (snd (insertText a0 1 ''ab'' w0)))) = 3
   \<and> lastChild w_text 1 = Some 2 \<and> nodeType (heap w_text 2) = TEXT_NODE
   \<and> data (heap (snd (insertText a0 1 ''cd'' w_text)) 2) = ''abcd''
   \<and> childNodes (heap (snd (insertText a0 1 ''cd'' w_text)) 1) = [2]
   \<and> nextRef (snd (insertText a0 1 ''cd'' w_text)) = 3"
proof -
  have t: "lastChild w_text 1 = Some 2 \<and> nodeType (heap w_text 2) = TEXT_NODE"
    by (simp add: w_text_def w0_def lastChild_def blank_def)
  have m: "insertText a0 1 ''cd'' w_text =
         (Inr (), update_node 2 (\<lambda>x. x\<lparr>data := data x @ ''cd''\<rparr>) w_text)"
    using insertText_merges_or_appends [where w = w_text and parent = 1 and this = a0 and chars = "''cd''"] t by blast
  have c: "childNodes (heap (snd (insertText a0 1 ''cd'' (snd (insertText a0 1 ''ab'' w0)))) 1) =
             childNodes (heap w0 1) @ [nextRef w0]
         \<and> data (heap (snd (insertText a0 1 ''cd'' (snd (insertText a0 1 ''ab'' w0))))
              (nextRef w0)) = ''abcd''
         \<and> nextRef (snd (insertText a0 1 ''cd'' (snd (insertText a0 1 ''ab'' w0)))) =
             Suc (nextRef w0)"
    using insertText_merges_or_appends [where w = w0 and parent = 1 and this = a0 and od = "Some 0"] w0_facts by blast
  have v: "childNodes (heap w0 1) = []" "nextRef w0 = 2"
    by (simp_all add: w0_def blank_def)
  show ?thesis
    using c t unfolding m v
    by (simp add: update_node_def w_text_def w0_def blank_def)
qed


text \<open>The definitions that the evaluation of a closed statement about \<open>createElement\<close>
  unfolds.\<close>

lemmas createElement_defs =
  createElement_def js_bind_def js_return_def js_modify_def js_throw_def
  adapter_ownerDocument_def a0_def JSDOMParse5Adapter_new_def Let_def
  createElement_definition_def env_y_def registry_lookup_def registry0_def
  counter_add_def stack_push_def stack_pop_def plain_helper_def
  make_element_def allocate_def enqueue_def invoke0_def mark_parserInserted_def
  update_node_def is_value_def w0_def blank_def HTML_NS_def

subsection \<open>insertTextBefore\<close>

text \<open>
  Where the previous sibling of the reference node is not a Text node, the new Text node
  becomes the last child of the parent, wherever the reference node stands.
\<close>

lemma insertTextBefore_places_last:
  assumes "\<not> is_text w (previousSibling w r)"
    and "fst (adapter_ownerDocument this w) = Inr od"
    and "parent < nextRef w"
  shows "fst (insertTextBefore this parent chars r w) = Inr ()"
    and "childNodes (heap (snd (insertTextBefore this parent chars r w)) parent) =
           childNodes (heap w parent) @ [nextRef w]"
proof -
  have od: "adapter_ownerDocument this w = (Inr od, w)"
    using assms(2) adapter_ownerDocument_state [of this w]
    by (cases "adapter_ownerDocument this w") simp
  have ne: "parent \<noteq> nextRef w" using assms(3) by simp
  have eq: "insertTextBefore this parent chars r w =
     (Inr (), update_node (nextRef w) (\<lambda>x. x\<lparr>parentNode := Some parent\<rparr>)
         (update_node parent (\<lambda>x. x\<lparr>childNodes := childNodes x @ [nextRef w]\<rparr>)
            (w\<lparr>heap := (heap w)(nextRef w :=
                 blank\<lparr>nodeType := TEXT_NODE, data := chars, ownerDocument := od\<rparr>),
             nextRef := Suc (nextRef w)\<rparr>)))"
    using assms(1) od
    by (simp add: insertTextBefore_def js_bind_def Text_createImpl_def allocate_def
        Node_append_def Node_insert_def js_modify_def unlink_def blank_def update_node_def)
  show "fst (insertTextBefore this parent chars r w) = Inr ()" by (simp add: eq)
  show "childNodes (heap (snd (insertTextBefore this parent chars r w)) parent) =
           childNodes (heap w parent) @ [nextRef w]"
    using ne by (simp add: eq update_node_def)
qed

text \<open>
  C3 fails on the code. In the store \<open>w_table\<close> the reference node, the table, is the only
  child of its parent and has no previous sibling; \<open>insertTextBefore\<close> returns with the new
  Text node after the table, at the end of the child list, where \<open>insertBefore\<close> with the
  same reference places a node before the table.
\<close>

theorem insertTextBefore_appends_after_reference:
  "previousSibling w_table 2 = None
   \<and> fst (insertTextBefore a0 1 ''x'' 2 w_table) = Inr ()
   \<and> childNodes (heap (snd (insertTextBefore a0 1 ''x'' 2 w_table)) 1) = [2, 3]
   \<and> nodeType (heap (snd (insertTextBefore a0 1 ''x'' 2 w_table)) 3) = TEXT_NODE
   \<and> data (heap (snd (insertTextBefore a0 1 ''x'' 2 w_table)) 3) = ''x''
   \<and> childNodes (heap (snd (js_bind (Text_createImpl ''x'' (Some 0))
                               (\<lambda>textNode. insertBefore 1 textNode 2) w_table)) 1) = [3, 2]"
  by (simp add: insertTextBefore_def previousSibling_def is_text_def w_table_def w0_def
      blank_def js_bind_def adapter_ownerDocument_def a0_def JSDOMParse5Adapter_new_def
      Text_createImpl_def allocate_def Node_append_def Node_insert_def insertBefore_def js_modify_def
      unlink_def update_node_def)

subsection \<open>createElement: the lookup of the definition\<close>

lemma createElement_definition_ignores_attrs:
  "createElement_definition env od lname ns attrs w =
   createElement_definition env od lname ns attrs' w"
  by (simp add: createElement_definition_def)

text \<open>
  C4 fails on the code. The token \<open>button\<close> with \<open>is="fancy-button"\<close> has the is-value
  \<open>fancy-button\<close>, and the registry holds a definition for (HTML namespace, button,
  fancy-button); the lookup that \<open>createElement\<close> makes finds none, the same as for the
  token without the attribute, and the element is made with no reaction scope pushed and
  with script execution disabled.
\<close>

theorem createElement_lookup_without_is_value:
  "is_value [is_attr ''fancy-button''] = Str ''fancy-button''
   \<and> registry_lookup registry0 (Some 0) HTML_NS ''button'' (is_value [is_attr ''fancy-button'']) w0 =
       Some \<lparr>ce_name = ''fancy-button'', ce_extends = Some ''button''\<rparr>
   \<and> createElement_definition env_y (Some 0) ''button'' HTML_NS [is_attr ''fancy-button''] w0 = None
   \<and> createElement_definition env_y (Some 0) ''button'' HTML_NS [is_attr ''fancy-button''] w0 =
       createElement_definition env_y (Some 0) ''button'' HTML_NS [] w0
   \<and> createElement env_y a0 ''button'' HTML_NS [is_attr ''fancy-button''] w0 =
       js_bind (helper_createElement env_y (Some 0) ''button'' HTML_NS Null
                  (Str ''fancy-button'') False)
         (\<lambda>element. js_bind (adoptAttributes element [is_attr ''fancy-button''])
         (\<lambda>_. js_return element)) w0"
  by (simp add: createElement_defs is_attr_def setAttributeValue_def same_key_def nullish_def
      old_value_def)

subsection \<open>createElement: the reaction scope\<close>

lemma js_bind_Inr:
  "js_bind m f w = (Inr y, w') \<Longrightarrow> \<exists>x w1. m w = (Inr x, w1) \<and> f x w1 = (Inr y, w')"
  by (auto simp: js_bind_def split: prod.splits sum.splits)

lemma keeps_scopesD:
  assumes "keeps_scopes m" and "m w = (Inr x, w')"
  shows "length (customElementReactionsStack w') = length (customElementReactionsStack w)"
    and "butlast (customElementReactionsStack w') = butlast (customElementReactionsStack w)"
    and "nextRef w \<le> nextRef w'"
    and "n < nextRef w \<Longrightarrow> throwOnDynamicMarkupInsertionCounter (heap w' n) =
            throwOnDynamicMarkupInsertionCounter (heap w n)"
  using assms unfolding keeps_scopes_def by blast+

lemma keeps_scopes_return: "keeps_scopes (js_return x)"
  by (simp add: keeps_scopes_def js_return_def)

lemma keeps_scopes_bind:
  assumes "keeps_scopes m" and "\<And>x. keeps_scopes (f x)"
  shows "keeps_scopes (js_bind m f)"
  unfolding keeps_scopes_def
proof (intro allI impI)
  fix w y w'
  assume "js_bind m f w = (Inr y, w')"
  from js_bind_Inr [OF this]
  obtain x w1 where 1: "m w = (Inr x, w1)" and 2: "f x w1 = (Inr y, w')"
    by blast
  note a = keeps_scopesD [OF assms(1) 1]
  note b = keeps_scopesD [OF assms(2) 2]
  show "length (customElementReactionsStack w') = length (customElementReactionsStack w)
      \<and> butlast (customElementReactionsStack w') = butlast (customElementReactionsStack w)
      \<and> nextRef w \<le> nextRef w'
      \<and> (\<forall>n. n < nextRef w \<longrightarrow>
            throwOnDynamicMarkupInsertionCounter (heap w' n) =
            throwOnDynamicMarkupInsertionCounter (heap w n))"
    using a(1-3) b(1-3) a(4) b(4) by (auto simp: less_le_trans)
qed

lemma enqueue_scopes:
  "length (customElementReactionsStack (enqueue r w)) = length (customElementReactionsStack w)"
  "butlast (customElementReactionsStack (enqueue r w)) = butlast (customElementReactionsStack w)"
  "nextRef (enqueue r w) = nextRef w"
  "heap (enqueue r w) = heap w"
  by (simp_all add: enqueue_def split: list.splits)

lemma keeps_scopes_setAttributeValue: "keeps_scopes (setAttributeValue e n v p ns)"
  by (auto simp: keeps_scopes_def setAttributeValue_def js_modify_def Let_def enqueue_scopes
      update_node_def)

lemma keeps_scopes_adoptAttributes: "keeps_scopes (adoptAttributes e as)"
  by (induction as) (simp_all add: keeps_scopes_return keeps_scopes_bind
      keeps_scopes_setAttributeValue)

lemma keeps_scopes_mark_parserInserted: "keeps_scopes (mark_parserInserted e)"
  by (auto simp: keeps_scopes_def mark_parserInserted_def js_modify_def update_node_def)

lemma adapter_ownerDocument_eq:
  "fst (adapter_ownerDocument this w) = Inr od \<Longrightarrow> adapter_ownerDocument this w = (Inr od, w)"
  using adapter_ownerDocument_state [of this w]
  by (cases "adapter_ownerDocument this w") simp

lemma createElement_script_steps:
  assumes od: "fst (adapter_ownerDocument this w) = Inr od"
    and found: "createElement_definition env od lname ns attrs w \<noteq> None"
    and nf: "\<not> fragment this"
    and ret: "createElement env this lname ns attrs w = (Inr element, w')"
  shows "\<exists>doc w2 w3 popped w3' w4 w5.
           od = Some doc
         \<and> helper_createElement env od lname ns Null (is_value attrs) True (entered doc w) =
             (Inr element, w2)
         \<and> adoptAttributes element attrs w2 = (Inr (), w3)
         \<and> stack_pop w3 = (Inr popped, w3')
         \<and> invokeCEReactions env popped w3' = (Inr (), w4)
         \<and> counter_add od (- 1) w4 = (Inr (), w5)
         \<and> mark_parserInserted element w5 = (Inr (), w')"
proof -
  have e: "adapter_ownerDocument this w = (Inr od, w)"
    using od by (rule adapter_ownerDocument_eq)
  have body: "js_bind (js_bind (counter_add od 1) (\<lambda>_. stack_push []))
            (\<lambda>_. js_bind (helper_createElement env od lname ns Null (is_value attrs) True)
            (\<lambda>element. js_bind (adoptAttributes element attrs)
            (\<lambda>_. js_bind (js_bind stack_pop
                           (\<lambda>queue. js_bind (invokeCEReactions env queue)
                           (\<lambda>_. counter_add od (- 1))))
            (\<lambda>_. js_bind (mark_parserInserted element)
            (\<lambda>_. js_return element))))) w = (Inr element, w')"
    using ret found nf by (simp add: createElement_def js_bind_def [of "adapter_ownerDocument this"] e Let_def)
  from js_bind_Inr [OF body] obtain u0 w1 where
    s1: "js_bind (counter_add od 1) (\<lambda>_. stack_push []) w = (Inr u0, w1)" and
    r1: "js_bind (helper_createElement env od lname ns Null (is_value attrs) True)
            (\<lambda>element. js_bind (adoptAttributes element attrs)
            (\<lambda>_. js_bind (js_bind stack_pop
                           (\<lambda>queue. js_bind (invokeCEReactions env queue)
                           (\<lambda>_. counter_add od (- 1))))
            (\<lambda>_. js_bind (mark_parserInserted element)
            (\<lambda>_. js_return element)))) w1 = (Inr element, w')"
    by blast
  from s1 obtain doc where d: "od = Some doc" and w1: "w1 = entered doc w"
    by (cases od)
       (auto simp: js_bind_def counter_add_def js_throw_def js_modify_def stack_push_def
          entered_def update_node_def)
  from js_bind_Inr [OF r1] obtain el w2 where
    s2: "helper_createElement env od lname ns Null (is_value attrs) True w1 = (Inr el, w2)" and
    r2: "js_bind (adoptAttributes el attrs)
            (\<lambda>_. js_bind (js_bind stack_pop
                           (\<lambda>queue. js_bind (invokeCEReactions env queue)
                           (\<lambda>_. counter_add od (- 1))))
            (\<lambda>_. js_bind (mark_parserInserted el)
            (\<lambda>_. js_return el))) w2 = (Inr element, w')"
    by blast
  from js_bind_Inr [OF r2] obtain u3 w3 where
    s3: "adoptAttributes el attrs w2 = (Inr u3, w3)" and
    r3: "js_bind (js_bind stack_pop
                           (\<lambda>queue. js_bind (invokeCEReactions env queue)
                           (\<lambda>_. counter_add od (- 1))))
            (\<lambda>_. js_bind (mark_parserInserted el)
            (\<lambda>_. js_return el)) w3 = (Inr element, w')"
    by blast
  from js_bind_Inr [OF r3] obtain u4 w5 where
    s4: "js_bind stack_pop
                           (\<lambda>queue. js_bind (invokeCEReactions env queue)
                           (\<lambda>_. counter_add od (- 1))) w3 = (Inr u4, w5)" and
    r4: "js_bind (mark_parserInserted el) (\<lambda>_. js_return el) w5 = (Inr element, w')"
    by blast
  from js_bind_Inr [OF s4] obtain popped w3' where
    s5: "stack_pop w3 = (Inr popped, w3')" and
    r5: "js_bind (invokeCEReactions env popped) (\<lambda>_. counter_add od (- 1)) w3' = (Inr u4, w5)"
    by blast
  from js_bind_Inr [OF r5] obtain u6 w4 where
    s6: "invokeCEReactions env popped w3' = (Inr u6, w4)" and
    r6: "counter_add od (- 1) w4 = (Inr u4, w5)"
    by blast
  from js_bind_Inr [OF r4] obtain u7 w6 where
    s7: "mark_parserInserted el w5 = (Inr u7, w6)" and
    r7: "js_return el w6 = (Inr element, w')"
    by blast
  from r7 have el: "el = element" and w6: "w6 = w'"
    by (simp_all add: js_return_def)
  show ?thesis
    using d s2 s3 s5 s6 r6 s7 unfolding w1 el w6 by auto
qed

lemma snoc_shape:
  assumes "length xs = Suc (length S)" and "butlast xs = S"
  shows "xs = S @ [last xs]"
proof -
  from assms(1) have "xs \<noteq> []" by auto
  then have "butlast xs @ [last xs] = xs" by simp
  with assms(2) show ?thesis by simp
qed

lemma stack_pop_nonempty:
  "customElementReactionsStack w \<noteq> [] \<Longrightarrow>
     stack_pop w = (Inr (Some (last (customElementReactionsStack w))),
                    w\<lparr>customElementReactionsStack := butlast (customElementReactionsStack w)\<rparr>)"
  by (cases "customElementReactionsStack w") (simp_all add: stack_pop_def)

lemma stack_pop_snoc:
  assumes "customElementReactionsStack w = S @ [q]"
  shows "stack_pop w = (Inr (Some q), w\<lparr>customElementReactionsStack := S\<rparr>)"
proof -
  from assms have "customElementReactionsStack w \<noteq> []" by simp
  from stack_pop_nonempty [OF this] show ?thesis by (simp add: assms)
qed

lemma entered_facts:
  "customElementReactionsStack (entered doc w) = customElementReactionsStack w @ [[]]"
  "nextRef (entered doc w) = nextRef w"
  "throwOnDynamicMarkupInsertionCounter (heap (entered doc w) n) =
     (if n = doc then throwOnDynamicMarkupInsertionCounter (heap w n) + 1
      else throwOnDynamicMarkupInsertionCounter (heap w n))"
  by (simp_all add: entered_def update_node_def)

lemma createElement_script_balance:
  assumes helper: "\<And>a b c d e f. keeps_scopes (helper_createElement env a b c d e f)"
    and invoke: "\<And>q. keeps_scopes (invokeCEReactions env q)"
    and od: "fst (adapter_ownerDocument this w) = Inr od"
    and found: "createElement_definition env od lname ns attrs w \<noteq> None"
    and nf: "\<not> fragment this"
    and ret: "createElement env this lname ns attrs w = (Inr element, w')"
  shows "\<exists>doc w2 w3 q w4 w5.
           od = Some doc
         \<and> customElementReactionsStack (entered doc w) = customElementReactionsStack w @ [[]]
         \<and> helper_createElement env od lname ns Null (is_value attrs) True (entered doc w) =
             (Inr element, w2)
         \<and> adoptAttributes element attrs w2 = (Inr (), w3)
         \<and> customElementReactionsStack w3 = customElementReactionsStack w @ [q]
         \<and> stack_pop w3 =
             (Inr (Some q), w3\<lparr>customElementReactionsStack := customElementReactionsStack w\<rparr>)
         \<and> invokeCEReactions env (Some q)
              (w3\<lparr>customElementReactionsStack := customElementReactionsStack w\<rparr>) = (Inr (), w4)
         \<and> counter_add od (- 1) w4 = (Inr (), w5)
         \<and> mark_parserInserted element w5 = (Inr (), w')
         \<and> length (customElementReactionsStack w') = length (customElementReactionsStack w)
         \<and> butlast (customElementReactionsStack w') = butlast (customElementReactionsStack w)
         \<and> nextRef w \<le> nextRef w'
         \<and> (\<forall>n. n < nextRef w \<longrightarrow>
               throwOnDynamicMarkupInsertionCounter (heap w' n) =
               throwOnDynamicMarkupInsertionCounter (heap w n))"
proof -
  from createElement_script_steps [OF od found nf ret]
  obtain doc w2 w3 popped w3' w4 w5 where
    d: "od = Some doc" and
    s2: "helper_createElement env od lname ns Null (is_value attrs) True (entered doc w) =
             (Inr element, w2)" and
    s3: "adoptAttributes element attrs w2 = (Inr (), w3)" and
    s4: "stack_pop w3 = (Inr popped, w3')" and
    s5: "invokeCEReactions env popped w3' = (Inr (), w4)" and
    s6: "counter_add od (- 1) w4 = (Inr (), w5)" and
    s7: "mark_parserInserted element w5 = (Inr (), w')"
    by blast
  let ?S = "customElementReactionsStack w"
  let ?c = "\<lambda>v n. throwOnDynamicMarkupInsertionCounter (heap v n)"
  note k2 = keeps_scopesD [OF helper s2]
  note k3 = keeps_scopesD [OF keeps_scopes_adoptAttributes s3]
  note k5 = keeps_scopesD [OF invoke s5]
  note k7 = keeps_scopesD [OF keeps_scopes_mark_parserInserted s7]
  have len3: "length (customElementReactionsStack w3) = Suc (length ?S)"
    using k2(1) k3(1) by (simp add: entered_facts)
  have but3: "butlast (customElementReactionsStack w3) = ?S"
    using k2(2) k3(2) by (simp add: entered_facts)
  define q where "q = last (customElementReactionsStack w3)"
  have st3: "customElementReactionsStack w3 = ?S @ [q]"
    unfolding q_def using len3 but3 by (rule snoc_shape)
  from stack_pop_snoc [OF st3] s4
  have p: "popped = Some q" and w3': "w3' = w3\<lparr>customElementReactionsStack := ?S\<rparr>"
    by simp_all
  have w5: "w5 = update_node doc
        (\<lambda>x. x\<lparr>throwOnDynamicMarkupInsertionCounter :=
                 throwOnDynamicMarkupInsertionCounter x + (- 1)\<rparr>) w4"
    using s6 d by (simp add: counter_add_def js_modify_def)
  have n3: "nextRef w \<le> nextRef w3"
    using k2(3) k3(3) by (simp add: entered_facts)
  have n3': "nextRef w3' = nextRef w3" by (simp add: w3')
  have n5: "nextRef w5 = nextRef w4" by (simp add: w5 update_node_def)
  have stack': "customElementReactionsStack w' = customElementReactionsStack w4
      \<or> (length (customElementReactionsStack w') = length (customElementReactionsStack w4)
         \<and> butlast (customElementReactionsStack w') = butlast (customElementReactionsStack w4))"
    using k7(1,2) by (simp add: w5 update_node_def)
  have len: "length (customElementReactionsStack w') = length ?S"
    using k7(1) k5(1) by (simp add: w5 w3' update_node_def)
  have but: "butlast (customElementReactionsStack w') = butlast ?S"
    using k7(2) k5(2) by (simp add: w5 w3' update_node_def)
  have nr: "nextRef w \<le> nextRef w'"
    using n3 n3' n5 k5(3) k7(3) by simp
  have cnt: "?c w' n = ?c w n" if n: "n < nextRef w" for n
  proof -
    have a: "?c w3 n = ?c (entered doc w) n"
      using k2(4) [of n] k3(4) [of n] k2(3) n by (simp add: entered_facts)
    have b: "?c w4 n = ?c w3 n"
      using k5(4) [of n] n n3 by (simp add: w3')
    have c: "?c w5 n = (if n = doc then ?c w4 n - 1 else ?c w4 n)"
      by (simp add: w5 update_node_def)
    have e: "?c w' n = ?c w5 n"
      using k7(4) [of n] n n3 n3' n5 k5(3) by simp
    show ?thesis
      unfolding e c b a by (simp add: entered_facts)
  qed
  have pop: "stack_pop w3 =
      (Inr (Some q), w3\<lparr>customElementReactionsStack := customElementReactionsStack w\<rparr>)"
    using st3 by (rule stack_pop_snoc)
  have inv: "invokeCEReactions env (Some q)
      (w3\<lparr>customElementReactionsStack := customElementReactionsStack w\<rparr>) = (Inr (), w4)"
    using s5 unfolding p w3' .
  have ent: "customElementReactionsStack (entered doc w) = customElementReactionsStack w @ [[]]"
    by (simp add: entered_facts)
  show ?thesis
    using d ent s2 s3 st3 pop inv s6 s7 len but nr cnt by blast
qed

lemma keeps_scopes_non_script:
  assumes helper: "\<And>a b c d e f. keeps_scopes (helper_createElement env a b c d e f)"
  shows "keeps_scopes
     (js_bind (js_return ())
        (\<lambda>_. js_bind (helper_createElement env od lname ns Null (is_value attrs) False)
        (\<lambda>element. js_bind (adoptAttributes element attrs)
        (\<lambda>_. js_bind (js_return ())
        (\<lambda>_. js_bind (mark_parserInserted element)
        (\<lambda>_. js_return element))))))"
  by (intro keeps_scopes_bind keeps_scopes_return helper keeps_scopes_adoptAttributes
      keeps_scopes_mark_parserInserted)

lemma createElement_keeps_scopes:
  assumes helper: "\<And>a b c d e f. keeps_scopes (helper_createElement env a b c d e f)"
    and invoke: "\<And>q. keeps_scopes (invokeCEReactions env q)"
  shows "keeps_scopes (createElement env this lname ns attrs)"
  unfolding keeps_scopes_def
proof (intro allI impI)
  fix w element w'
  assume ret: "createElement env this lname ns attrs w = (Inr element, w')"
  then obtain od where od: "adapter_ownerDocument this w = (Inr od, w)"
    using adapter_ownerDocument_state [of this w]
    by (cases "adapter_ownerDocument this w"; cases "fst (adapter_ownerDocument this w)")
       (auto simp: createElement_def js_bind_def)
  then have od': "fst (adapter_ownerDocument this w) = Inr od" by simp
  show "length (customElementReactionsStack w') = length (customElementReactionsStack w)
      \<and> butlast (customElementReactionsStack w') = butlast (customElementReactionsStack w)
      \<and> nextRef w \<le> nextRef w'
      \<and> (\<forall>n. n < nextRef w \<longrightarrow>
            throwOnDynamicMarkupInsertionCounter (heap w' n) =
            throwOnDynamicMarkupInsertionCounter (heap w n))"
  proof (cases "createElement_definition env od lname ns attrs w \<noteq> None \<and> \<not> fragment this")
    case True
    with createElement_script_balance [OF helper invoke od' _ _ ret]
    show ?thesis by blast
  next
    case False
    with ret od have "js_bind (js_return ())
        (\<lambda>_. js_bind (helper_createElement env od lname ns Null (is_value attrs) False)
        (\<lambda>element. js_bind (adoptAttributes element attrs)
        (\<lambda>_. js_bind (js_return ())
        (\<lambda>_. js_bind (mark_parserInserted element)
        (\<lambda>_. js_return element))))) w = (Inr element, w')"
      by (cases "fragment this")
         (auto simp add: createElement_def js_bind_def [of "adapter_ownerDocument this"] Let_def)
    from keeps_scopesD [OF keeps_scopes_non_script [OF helper] this]
    show ?thesis by blast
  qed
qed

lemma keeps_scopes_make_element: "keeps_scopes (make_element od lname ns)"
  by (auto simp: keeps_scopes_def make_element_def allocate_def)

lemma keeps_scopes_plain_helper: "keeps_scopes (plain_helper od lname ns p i s)"
  unfolding plain_helper_def
  by (intro keeps_scopes_bind keeps_scopes_return keeps_scopes_make_element)
     (auto simp: keeps_scopes_def js_modify_def enqueue_scopes)

lemma run_reactions_scopes:
  "customElementReactionsStack (run_reactions rs w) = customElementReactionsStack w"
  "nextRef (run_reactions rs w) = nextRef w"
  "throwOnDynamicMarkupInsertionCounter (heap (run_reactions rs w) n) =
     throwOnDynamicMarkupInsertionCounter (heap w n)"
  by (induction rs w rule: run_reactions.induct) (simp_all add: update_node_def)

lemma keeps_scopes_invoke0: "keeps_scopes (invoke0 q)"
  by (cases q) (auto simp: keeps_scopes_def invoke0_def js_throw_def js_modify_def
      run_reactions_scopes)

lemma keeps_scopes_env_y:
  "keeps_scopes (helper_createElement env_y a b c d e f)"
  "keeps_scopes (invokeCEReactions env_y q)"
  by (simp_all add: env_y_def keeps_scopes_plain_helper keeps_scopes_invoke0)

lemma keeps_scopes_nesting_helper: "keeps_scopes (nesting_helper od lname ns p i s)"
  unfolding nesting_helper_def
  by (intro keeps_scopes_bind keeps_scopes_plain_helper)
     (auto intro!: keeps_scopes_bind keeps_scopes_return createElement_keeps_scopes
        keeps_scopes_env_y)

lemma keeps_scopes_env_x:
  "keeps_scopes (helper_createElement env_x a b c d e f)"
  "keeps_scopes (invokeCEReactions env_x q)"
  by (simp_all add: env_x_def env_y_def keeps_scopes_nesting_helper keeps_scopes_invoke0)


text \<open>
  When the element factory and the invocation of a queue never throw and the owner
  document is not null, \<open>createElement\<close> returns an element.
\<close>

lemma returns_bind:
  assumes "returns m" and "\<And>x. returns (f x)"
  shows "returns (js_bind m f)"
  unfolding returns_def
proof
  fix s
  from assms(1) obtain x s1 where 1: "m s = (Inr x, s1)" unfolding returns_def by blast
  from assms(2) [of x] obtain y s2 where 2: "f x s1 = (Inr y, s2)" unfolding returns_def by blast
  show "\<exists>y s'. js_bind m f s = (Inr y, s')"
    using 1 2 by (simp add: js_bind_def)
qed

lemma returns_simple:
  "returns (js_return x)" "returns (js_modify g)" "returns stack_pop"
  "returns (counter_add (Some d) k)" "returns (stack_push q)" "returns (mark_parserInserted e)"
  "returns (setAttributeValue e n v p ns)"
  by (auto simp: returns_def js_return_def js_modify_def stack_pop_def counter_add_def
      stack_push_def mark_parserInserted_def setAttributeValue_def split: list.splits)

lemma returns_adoptAttributes: "returns (adoptAttributes e as)"
  by (induction as) (simp_all add: returns_simple returns_bind)

lemma createElement_returns:
  assumes helper: "\<And>a b c d e f. returns (helper_createElement env a b c d e f)"
    and invoke: "\<And>q. returns (invokeCEReactions env q)"
    and od: "fst (adapter_ownerDocument this w) = Inr (Some doc)"
  shows "\<exists>element w'. createElement env this lname ns attrs w = (Inr element, w')"
proof -
  have e: "adapter_ownerDocument this w = (Inr (Some doc), w)"
    using od by (rule adapter_ownerDocument_eq)
  have "returns (js_bind
            (if b then js_bind (counter_add (Some doc) 1) (\<lambda>_. stack_push [])
             else js_return ())
            (\<lambda>_. js_bind (helper_createElement env (Some doc) lname ns Null (is_value attrs) b)
            (\<lambda>element. js_bind (adoptAttributes element attrs)
            (\<lambda>_. js_bind
                   (if b
                    then js_bind stack_pop
                           (\<lambda>queue. js_bind (invokeCEReactions env queue)
                           (\<lambda>_. counter_add (Some doc) (- 1)))
                    else js_return ())
            (\<lambda>_. js_bind (mark_parserInserted element)
            (\<lambda>_. js_return element))))))" for b
    by (cases b)
       (auto intro!: returns_bind returns_simple returns_adoptAttributes helper invoke)
  then show ?thesis
    unfolding returns_def
    by (simp add: createElement_def js_bind_def [of "adapter_ownerDocument this"] e Let_def)
qed


text \<open>
  C1. Let the element factory and the invocation of a queue keep the reaction scopes, as
  they do when every scope they open they also close. When \<open>createElement\<close> finds a
  definition, the adapter is not parsing a fragment, and the call returns an element,
  then: the element was constructed in the store where the owner document's counter is
  incremented and a new empty queue is on top of the stack; after the attributes were
  adopted that queue \<open>q\<close>, with the reactions added to it, was still directly above the
  stack of before the call; it was popped and passed to the invocation of reactions; the
  store the call returns is the one that invocation left, with the owner document's
  counter decremented and the element marked as inserted by the parser; and in that
  store the stack is as deep as before the call and unchanged below its top, and the
  counter of every allocated object is what it was. The element factory may
  itself create custom elements through \<open>createElement\<close>: by
  \<open>createElement_keeps_scopes\<close> such a factory keeps the scopes as well.
\<close>

theorem createElement_reaction_scope:
  assumes "\<And>a b c d e f. keeps_scopes (helper_createElement env a b c d e f)"
    and "\<And>q. keeps_scopes (invokeCEReactions env q)"
    and "fst (adapter_ownerDocument this w) = Inr od"
    and "createElement_definition env od lname ns attrs w \<noteq> None"
    and "\<not> fragment this"
    and "createElement env this lname ns attrs w = (Inr element, w')"
  shows "\<exists>doc w2 w3 q w4 w5.
           od = Some doc
         \<and> customElementReactionsStack (entered doc w) = customElementReactionsStack w @ [[]]
         \<and> helper_createElement env od lname ns Null (is_value attrs) True (entered doc w) =
             (Inr element, w2)
         \<and> adoptAttributes element attrs w2 = (Inr (), w3)
         \<and> customElementReactionsStack w3 = customElementReactionsStack w @ [q]
         \<and> stack_pop w3 =
             (Inr (Some q), w3\<lparr>customElementReactionsStack := customElementReactionsStack w\<rparr>)
         \<and> invokeCEReactions env (Some q)
              (w3\<lparr>customElementReactionsStack := customElementReactionsStack w\<rparr>) = (Inr (), w4)
         \<and> counter_add od (- 1) w4 = (Inr (), w5)
         \<and> mark_parserInserted element w5 = (Inr (), w')
         \<and> length (customElementReactionsStack w') = length (customElementReactionsStack w)
         \<and> butlast (customElementReactionsStack w') = butlast (customElementReactionsStack w)
         \<and> nextRef w \<le> nextRef w'
         \<and> (\<forall>n. n < nextRef w \<longrightarrow>
               throwOnDynamicMarkupInsertionCounter (heap w' n) =
               throwOnDynamicMarkupInsertionCounter (heap w n))"
  using assms by (rule createElement_script_balance)

theorem createElement_reaction_scope_witness:
  "fst (createElement env_x a0 ''x-el'' HTML_NS [] w0) = Inr 2
   \<and> length (customElementReactionsStack (snd (createElement env_x a0 ''x-el'' HTML_NS [] w0))) =
       length (customElementReactionsStack w0)
   \<and> throwOnDynamicMarkupInsertionCounter
         (heap (snd (createElement env_x a0 ''x-el'' HTML_NS [] w0)) 0) =
       throwOnDynamicMarkupInsertionCounter (heap w0 0)
   \<and> data (heap (snd (createElement env_x a0 ''x-el'' HTML_NS [] w0)) 0) =
       ''y-el.connectedCallback;x-el.connectedCallback;''"
proof -
  have od: "fst (adapter_ownerDocument a0 w0) = Inr (Some 0)"
    by (simp add: a0_def adapter_ownerDocument_def JSDOMParse5Adapter_new_def)
  have found: "createElement_definition env_x (Some 0) ''x-el'' HTML_NS [] w0 \<noteq> None"
    by (simp add: createElement_definition_def env_x_def env_y_def registry_lookup_def
        registry0_def)
  have nf: "\<not> fragment a0"
    by (simp add: a0_def JSDOMParse5Adapter_new_def)
  have r: "fst (createElement env_x a0 ''x-el'' HTML_NS [] w0) = Inr 2"
    by (simp add: createElement_defs env_x_def nesting_helper_def)
  have lifo: "data (heap (snd (createElement env_x a0 ''x-el'' HTML_NS [] w0)) 0) =
       ''y-el.connectedCallback;x-el.connectedCallback;''"
    by (simp add: createElement_defs env_x_def nesting_helper_def)
  have ret: "createElement env_x a0 ''x-el'' HTML_NS [] w0 =
      (Inr 2, snd (createElement env_x a0 ''x-el'' HTML_NS [] w0))"
    using r by (cases "createElement env_x a0 ''x-el'' HTML_NS [] w0") simp
  have n: "(0::nat) < nextRef w0" by (simp add: w0_def)
  from createElement_reaction_scope [OF keeps_scopes_env_x od found nf ret] n
  have "length (customElementReactionsStack (snd (createElement env_x a0 ''x-el'' HTML_NS [] w0))) =
       length (customElementReactionsStack w0)
   \<and> throwOnDynamicMarkupInsertionCounter
         (heap (snd (createElement env_x a0 ''x-el'' HTML_NS [] w0)) 0) =
       throwOnDynamicMarkupInsertionCounter (heap w0 0)"
    by blast
  with r lifo show ?thesis by simp
qed


section \<open>Properties of a mutation record\<close>

subsection \<open>What the tree operations leave alone\<close>











subsection \<open>Reads after construction\<close>













section \<open>Properties of the scheduled callbacks\<close>

text \<open>
  What a callback wrapped in \<open>try\<close> and \<open>catch\<close> does: when the callback returns, so
  does the wrapper; when it throws and the window still has its document, the wrapper
  returns and the exception was reported with the location; when it throws and the window
  has no document any more, the \<open>catch\<close> throws a TypeError and nothing was reported.
\<close>

lemma guarded_call:
  "js_try_catch (page m) (\<lambda>e. report e) (w, l) =
     (case fst (m w) of
        Inr x \<Rightarrow> (Inr x, (snd (m w), l))
      | Inl e \<Rightarrow>
          if has_document (snd (m w))
          then (Inr (), (snd (m w), l @ [(e, location_href (snd (m w)))]))
          else (Inl TypeError, (snd (m w), l)))"
  by (cases "m w"; cases "fst (m w)")
     (auto simp: js_try_catch_def page_def report_def reportException_def js_modify_def
        js_bind_def window_location_href_def)

lemma microtask_unfold:
  "microtask env callback (w, l) =
     (case fst (apply_function env callback [] w) of
        Inr x \<Rightarrow> (Inr (), (snd (apply_function env callback [] w), l))
      | Inl e \<Rightarrow>
          if has_document (snd (apply_function env callback [] w))
          then (Inr (), (snd (apply_function env callback [] w),
                         l @ [(e, location_href (snd (apply_function env callback [] w)))]))
          else (Inl TypeError, (snd (apply_function env callback [] w), l)))"
  by (simp add: microtask_def guarded_call split: sum.splits)

lemma run_handles_unfold:
  "run_handles env now (h # hs) (w, l) =
     (case map_of (mapOfAnimationFrameCallbacks w) h of
        Some callback \<Rightarrow>
          js_bind
            (js_try_catch (page (apply_function env callback [now])) (\<lambda>e. report e))
            (\<lambda>_. run_handles env now hs)
            (snd (removeAnimationFrameCallback h w), l)
      | None \<Rightarrow> run_handles env now hs (w, l))"
  by (cases "map_of (mapOfAnimationFrameCallbacks w) h")
     (simp_all add: js_bind_def page_def removeAnimationFrameCallback_def js_modify_def)

text \<open>
  A frame whose second callback throws, in a window that keeps its document: all three
  callbacks ran, in order, and the exception was reported.
\<close>

lemma frame_with_a_throwing_callback:
  "fst (runAnimationFrameCallbacks script0 5 (window0, [])) = Inr ()
   \<and> microtasks (fst (snd (runAnimationFrameCallbacks script0 5 (window0, [])))) = [10, 20, 30]
   \<and> mapOfAnimationFrameCallbacks (fst (snd (runAnimationFrameCallbacks script0 5 (window0, [])))) = []
   \<and> snd (snd (runAnimationFrameCallbacks script0 5 (window0, []))) = [(Thrown 7, ''about:blank'')]"
  by code_simp

text \<open>
  C9 fails on the code. Function 20 closes its window and then throws. Called as the
  handler of a fired timer, as a queued microtask or as the second callback of a frame,
  its exception is caught, but the \<open>catch\<close> reads \<open>window.location.href\<close> of the window
  without a document and throws a TypeError, which leaves the closure: nothing is
  reported, and in the frame the third callback, function 30, is never called and stays
  registered.
\<close>

theorem closed_window_exception_escapes:
  "fst (apply_function script1 20 [] window0) = Inl (Thrown 7)
   \<and> fst (task script1 task1 (window0, [])) = Inl TypeError
   \<and> snd (snd (task script1 task1 (window0, []))) = []
   \<and> fst (microtask script1 20 (window0, [])) = Inl TypeError
   \<and> snd (snd (microtask script1 20 (window0, []))) = []
   \<and> fst (runAnimationFrameCallbacks script1 5 (window0, [])) = Inl TypeError
   \<and> microtasks (fst (snd (runAnimationFrameCallbacks script1 5 (window0, [])))) = [10, 20]
   \<and> mapOfAnimationFrameCallbacks (fst (snd (runAnimationFrameCallbacks script1 5 (window0, [])))) =
       [(3, 30)]
   \<and> snd (snd (runAnimationFrameCallbacks script1 5 (window0, []))) = []"
  by code_simp

end
